theory Spec2Isabelle
  imports Main "HOL-Library.Multiset" "HOL-Library.Char_ord" "HOL-Library.List_Lexorder"
    "HOL-Library.Product_Lexorder"
begin

section \<open>Data model\<close>

text \<open>
  The RPC methods of \<^verbatim>\<open>supervisor.go\<close> have the Go shape
  \<^verbatim>\<open>func (s *Supervisor) M(r, args, reply) error\<close>: they mutate the supervisor, fill
  \<open>reply\<close> and return an error value. In the model a method takes the supervisor and
  the arguments and returns the triple (supervisor afterwards, reply, error), where the
  error is \<open>None\<close> for Go's \<^verbatim>\<open>nil\<close> and otherwise carries the message given to
  \<^verbatim>\<open>fmt.Errorf\<close>.
\<close>

type_synonym error = string

text \<open>
  Modelled from the spec: the states of \<^verbatim>\<open>process.State\<close> (section 3 of the
  specification); \<^verbatim>\<open>supervisor.go\<close> itself names only \<^verbatim>\<open>process.Running\<close>.
\<close>

datatype State = Stopped | Starting | Running | Backoff | Stopping | Exited | Fatal | Unknown

text \<open>
  Modelled from the spec: \<^verbatim>\<open>process.Process\<close>, reduced to the attributes that
  \<^verbatim>\<open>supervisor.go\<close> reads through getters (\<^verbatim>\<open>GetName\<close>, \<^verbatim>\<open>GetGroup\<close>,
  \<^verbatim>\<open>GetDescription\<close>, \<^verbatim>\<open>GetStartTime\<close>, \<^verbatim>\<open>GetStopTime\<close>, \<^verbatim>\<open>GetState\<close> (the field \<open>state\<close>),
  \<^verbatim>\<open>GetExitstatus\<close>, \<^verbatim>\<open>GetStdoutLogfile\<close>, \<^verbatim>\<open>GetStderrLogfile\<close>, \<^verbatim>\<open>GetPid\<close>)
  and the descriptor fields of section 3 that the manager uses (priority, autostart,
  command). Two further fields record what has reached the child: the characters
  written to its stdin and the signal numbers delivered to it, oldest first.
\<close>

record Process =
  GetName :: string
  GetGroup :: string
  GetDescription :: string
  GetStartTime :: int
  GetStopTime :: int
  state :: State
  GetExitstatus :: int
  GetStdoutLogfile :: string
  GetStderrLogfile :: string
  GetPid :: int
  priority :: int
  autostart :: bool
  command :: string
  stdin_written :: string
  signals_received :: "int list"

text \<open>
  Modelled from the spec: \<^verbatim>\<open>process.Manager\<close>, the registry "mapping name \<open>\<rightarrow>\<close> Process".
  Go holds pointers to the processes; here the registry is the store and a process is
  referred to by the name it is registered under.
\<close>

record Manager =
  procs :: "(string \<times> Process) list"

text \<open>
  Modelled from the spec: the parts of \<^verbatim>\<open>config.Config\<close> that \<^verbatim>\<open>Reload\<close> uses: the
  program and event-listener entries, the \<^verbatim>\<open>ProgramGroup\<close> mapping from program
  name to group name, and the keys of the \<^verbatim>\<open>[supervisord]\<close> section when there is one.
\<close>

record Entry =
  entry_name :: string
  entry_group :: string
  entry_priority :: int
  entry_autostart :: bool
  entry_command :: string

record Config =
  GetPrograms :: "Entry list"
  GetEventListeners :: "Entry list"
  ProgramGroup :: "(string \<times> string) list"
  GetSupervisord :: "(string \<times> string) list option"

text \<open>
  The \<^verbatim>\<open>Supervisor\<close> struct. The XML-RPC server and the logger are handles to the
  outside world and carry no state that the modelled methods read.
\<close>

record Supervisor =
  config :: Config
  procMgr :: Manager
  restarting :: bool

record StateInfo =
  Statecode :: int
  Statename :: string

section \<open>Supervisor state, process-group stubs\<close>

definition GetState :: "Supervisor \<Rightarrow> Supervisor \<times> StateInfo \<times> error option" where
  "GetState s = (s, \<lparr>Statecode = 1, Statename = ''RUNNING''\<rparr>, None)"

definition Restart :: "Supervisor \<Rightarrow> Supervisor \<times> bool \<times> error option" where
  "Restart s = (s\<lparr>restarting := True\<rparr>, True, None)"

definition IsRestarting :: "Supervisor \<Rightarrow> bool" where
  "IsRestarting s = restarting s"

definition AddProcessGroup :: "Supervisor \<Rightarrow> string \<Rightarrow> Supervisor \<times> bool \<times> error option" where
  "AddProcessGroup s name = (s, False, None)"

definition RemoveProcessGroup :: "Supervisor \<Rightarrow> string \<Rightarrow> Supervisor \<times> bool \<times> error option" where
  "RemoveProcessGroup s name = (s, False, None)"

section \<open>The process manager\<close>

text \<open>
  Modelled from the spec: \<^verbatim>\<open>Manager.Find\<close>, "find(name) \<open>\<rightarrow>\<close> Process?", the lookup of
  one name in the registry.
\<close>

definition Find :: "Manager \<Rightarrow> string \<Rightarrow> Process option" where
  "Find pm name = map_of (procs pm) name"

text \<open>
  Modelled from the spec: \<^verbatim>\<open>Manager.Remove\<close>, "remove(name) \<open>\<rightarrow>\<close> Process? -- returns
  and unregisters; caller stops it".
\<close>

definition Remove :: "Manager \<Rightarrow> string \<Rightarrow> Manager \<times> Process option" where
  "Remove pm name = (pm\<lparr>procs := filter (\<lambda>kv. fst kv \<noteq> name) (procs pm)\<rparr>, Find pm name)"

text \<open>
  Modelled from the spec: the iteration order of the manager, "iteration sorted by
  (priority, name) for deterministic batch ops".
\<close>

definition getAllProcess :: "Manager \<Rightarrow> (string \<times> Process) list" where
  "getAllProcess pm = sort_key (\<lambda>kv. (priority (snd kv), fst kv)) (procs pm)"

text \<open>
  Modelled from the spec: \<^verbatim>\<open>Manager.ForEachProcess\<close>, "for_each(fn) -- synchronous
  iteration in (priority, name) order". The Go callback appends to a variable of the
  caller; here it folds over an accumulator.
\<close>

definition ForEachProcess :: "Manager \<Rightarrow> (Process \<Rightarrow> 'a \<Rightarrow> 'a) \<Rightarrow> 'a \<Rightarrow> 'a" where
  "ForEachProcess pm procFunc acc = fold (\<lambda>kv. procFunc (snd kv)) (getAllProcess pm) acc"

text \<open>
  Modelled from the spec: \<^verbatim>\<open>Manager.FindMatch\<close>, "find_match(pattern) \<open>\<rightarrow>\<close> [Process]
  where pattern matches name, group:name, or group:*". The result lists the names under
  which the matching processes are registered.
\<close>

fun split_colon :: "string \<Rightarrow> (string \<times> string) option" where
  "split_colon [] = None"
| "split_colon (c # cs) =
     (if c = CHR '':'' then Some ([], cs)
      else map_option (\<lambda>gn. (c # fst gn, snd gn)) (split_colon cs))"

definition FindMatch :: "Manager \<Rightarrow> string \<Rightarrow> string list" where
  "FindMatch pm name =
     (case split_colon name of
        Some (groupName, programName) \<Rightarrow>
          map fst (filter (\<lambda>kv. GetGroup (snd kv) = groupName \<and>
                               (programName = ''*'' \<or> programName = GetName (snd kv)))
                    (getAllProcess pm))
      | None \<Rightarrow> (case Find pm name of Some p \<Rightarrow> [name] | None \<Rightarrow> []))"

text \<open>
  A method call through a process pointer: the process registered under \<open>name\<close> is
  replaced by the result of the call.
\<close>

definition update_proc :: "(Process \<Rightarrow> Process) \<Rightarrow> string \<Rightarrow> Manager \<Rightarrow> Manager" where
  "update_proc f name pm =
     pm\<lparr>procs := map (\<lambda>kv. if fst kv = name then (fst kv, f (snd kv)) else kv) (procs pm)\<rparr>"

section \<open>Collaborators outside the visible source, as the specification describes them\<close>

text \<open>
  The methods of \<^verbatim>\<open>supervisor.go\<close> below take the process operations they call
  (\<^verbatim>\<open>Start\<close>, \<^verbatim>\<open>Stop\<close>, \<^verbatim>\<open>Signal\<close>, \<^verbatim>\<open>SendProcessStdin\<close>) and the signal table
  \<^verbatim>\<open>signals.ToSignal\<close> as parameters, so every theorem about them holds whatever these
  operations do. The definitions of this section are instances used at concrete inputs.
\<close>

text \<open>
  Modelled from the spec: \<^verbatim>\<open>Process.Start\<close> (sections 4.3 and 4.4) for a child that
  stays alive once spawned: a process that already has a child is left as it is; an
  empty command string fails immediately into FATAL; otherwise the process is STARTING,
  and RUNNING when the caller waits.
\<close>

definition Start_spec :: "bool \<Rightarrow> Process \<Rightarrow> Process" where
  "Start_spec wait p =
     (if state p \<in> {Starting, Running, Stopping} then p
      else if command p = [] then p\<lparr>state := Fatal\<rparr>
      else if wait then p\<lparr>state := Running\<rparr>
      else p\<lparr>state := Starting\<rparr>)"

text \<open>
  Modelled from the spec: \<^verbatim>\<open>Process.Stop\<close> (section 4.5): in STOPPED, EXITED, FATAL
  or BACKOFF it returns immediately; with \<open>wait\<close> the process is STOPPED on return,
  without it the stop sequence runs in the background and the process is STOPPING.
\<close>

definition Stop_spec :: "bool \<Rightarrow> Process \<Rightarrow> Process" where
  "Stop_spec wait p =
     (if state p \<in> {Stopped, Exited, Fatal, Backoff} then p
      else if wait then p\<lparr>state := Stopped\<rparr>
      else p\<lparr>state := Stopping\<rparr>)"

text \<open>
  Modelled from the spec: \<^verbatim>\<open>signals.ToSignal\<close>, "textual names (HUP, INT, QUIT, TERM,
  KILL, USR1, USR2, ...) resolve to platform signal numbers; unknown names fail with
  BAD_SIGNAL". The numbers are those of Linux.
\<close>

definition ToSignal_spec :: "string \<Rightarrow> error + int" where
  "ToSignal_spec signalName =
     (case map_of [(''HUP'', 1), (''INT'', 2), (''QUIT'', 3), (''KILL'', 9), (''USR1'', 10),
                   (''USR2'', 12), (''TERM'', 15)] signalName of
        Some n \<Rightarrow> Inr n
      | None \<Rightarrow> Inl ''BAD_SIGNAL'')"

text \<open>
  Modelled from the spec: \<^verbatim>\<open>Process.Signal\<close>, "signal(P, S) with P not running returns
  NOT_RUNNING without side effects"; a process with a child receives the signal.
\<close>

definition Signal_spec :: "int \<Rightarrow> bool \<Rightarrow> Process \<Rightarrow> Process" where
  "Signal_spec sig sigChildren p =
     (if state p \<in> {Starting, Running, Stopping}
      then p\<lparr>signals_received := signals_received p @ [sig]\<rparr> else p)"

text \<open>
  Modelled from the spec: \<^verbatim>\<open>Process.SendProcessStdin\<close> for a child whose stdin pipe
  accepts the write.
\<close>

definition SendProcessStdin_spec :: "string \<Rightarrow> Process \<Rightarrow> Process \<times> error option" where
  "SendProcessStdin_spec chars p = (p\<lparr>stdin_written := stdin_written p @ chars\<rparr>, None)"

section \<open>Operations on one named process\<close>

record StartProcessArgs =
  Name :: string
  Wait :: bool

record ProcessStdin =
  stdin_Name :: string
  Chars :: string

text \<open>The struct \<^verbatim>\<open>types.ProcessSignal\<close>, with the two fields \<^verbatim>\<open>SignalProcess\<close> reads.\<close>

record ProcessSignal =
  signal_Name :: string
  Signal :: string

definition StartProcess ::
  "(bool \<Rightarrow> Process \<Rightarrow> Process) \<Rightarrow> Supervisor \<Rightarrow> StartProcessArgs
     \<Rightarrow> Supervisor \<times> bool \<times> error option" where
  "StartProcess Start s args =
     (let ps = FindMatch (procMgr s) (Name args) in
      if length ps \<le> 0 then (s, False, Some (''fail to find process '' @ Name args))
      else (s\<lparr>procMgr := fold (update_proc (Start (Wait args))) ps (procMgr s)\<rparr>, True, None))"

definition StopProcess ::
  "(bool \<Rightarrow> Process \<Rightarrow> Process) \<Rightarrow> Supervisor \<Rightarrow> StartProcessArgs
     \<Rightarrow> Supervisor \<times> bool \<times> error option" where
  "StopProcess Stop s args =
     (let ps = FindMatch (procMgr s) (Name args) in
      if length ps \<le> 0 then (s, False, Some (''fail to find process '' @ Name args))
      else (s\<lparr>procMgr := fold (update_proc (Stop (Wait args))) ps (procMgr s)\<rparr>, True, None))"

definition SignalProcess ::
  "(string \<Rightarrow> error + int) \<Rightarrow> (int \<Rightarrow> bool \<Rightarrow> Process \<Rightarrow> Process) \<Rightarrow> Supervisor
     \<Rightarrow> ProcessSignal \<Rightarrow> Supervisor \<times> bool \<times> error option" where
  "SignalProcess ToSignal Signal_proc s args =
     (let ps = FindMatch (procMgr s) (signal_Name args) in
      if length ps \<le> 0 then (s, False, Some (''No process named '' @ signal_Name args))
      else
        (case ToSignal (Signal args) of
           Inr sig \<Rightarrow>
             (s\<lparr>procMgr := fold (update_proc (Signal_proc sig False)) ps (procMgr s)\<rparr>, True, None)
         | Inl err \<Rightarrow> (s, True, None)))"

definition SendProcessStdin ::
  "(string \<Rightarrow> Process \<Rightarrow> Process \<times> error option) \<Rightarrow> Supervisor \<Rightarrow> ProcessStdin
     \<Rightarrow> Supervisor \<times> bool \<times> error option" where
  "SendProcessStdin SendProcessStdin_proc s args =
     (case Find (procMgr s) (stdin_Name args) of
        None \<Rightarrow> (s, False, Some ''NOT_RUNNING'')
      | Some proc \<Rightarrow>
          if state proc \<noteq> Running then (s, False, Some ''NOT_RUNNING'')
          else
            (let err = snd (SendProcessStdin_proc (Chars args) proc) in
             (s\<lparr>procMgr := update_proc (\<lambda>p. fst (SendProcessStdin_proc (Chars args) p))
                               (stdin_Name args) (procMgr s)\<rparr>,
              err = None, err)))"

section \<open>Process information\<close>

text \<open>
  The struct \<^verbatim>\<open>types.ProcessInfo\<close> with the fields \<^verbatim>\<open>getProcessInfo\<close> fills. The
  numeric encoding of the state is declared in the process package; the field keeps the
  state itself.
\<close>

record ProcessInfo =
  info_Name :: string
  info_Group :: string
  info_Description :: string
  info_Start :: int
  info_Stop :: int
  info_Now :: int
  info_State :: State
  info_Statename :: string
  Spawnerr :: string
  Exitstatus :: int
  Logfile :: string
  StdoutLogfile :: string
  StderrLogfile :: string
  Pid :: int

record RPCTaskResult =
  task_Name :: string
  task_Group :: string
  Status :: int
  Description :: string

text \<open>Modelled from the spec: \<^verbatim>\<open>State.String\<close>, the state names of section 3.\<close>

fun State_String :: "State \<Rightarrow> string" where
  "State_String Stopped = ''STOPPED''"
| "State_String Starting = ''STARTING''"
| "State_String Running = ''RUNNING''"
| "State_String Backoff = ''BACKOFF''"
| "State_String Stopping = ''STOPPING''"
| "State_String Exited = ''EXITED''"
| "State_String Fatal = ''FATAL''"
| "State_String Unknown = ''UNKNOWN''"

text \<open>The argument \<open>now\<close> is the reading of the clock, \<^verbatim>\<open>time.Now().Unix()\<close>.\<close>

definition getProcessInfo :: "int \<Rightarrow> Process \<Rightarrow> ProcessInfo" where
  "getProcessInfo now proc =
     \<lparr>info_Name = GetName proc,
      info_Group = GetGroup proc,
      info_Description = GetDescription proc,
      info_Start = GetStartTime proc,
      info_Stop = GetStopTime proc,
      info_Now = now,
      info_State = state proc,
      info_Statename = State_String (state proc),
      Spawnerr = [],
      Exitstatus = GetExitstatus proc,
      Logfile = GetStdoutLogfile proc,
      StdoutLogfile = GetStdoutLogfile proc,
      StderrLogfile = GetStderrLogfile proc,
      Pid = GetPid proc\<rparr>"

text \<open>
  Modelled from the spec: \<^verbatim>\<open>types.SortProcessInfos\<close>, "sequence of ProcessInfo, sorted
  by (group, name)". Strings compare byte by byte, as Go's do.
\<close>

definition SortProcessInfos :: "ProcessInfo list \<Rightarrow> ProcessInfo list" where
  "SortProcessInfos infos = sort_key (\<lambda>i. (info_Group i, info_Name i)) infos"

definition GetAllProcessInfo ::
  "int \<Rightarrow> Supervisor \<Rightarrow> Supervisor \<times> ProcessInfo list \<times> error option" where
  "GetAllProcessInfo now s =
     (s,
      SortProcessInfos
        (ForEachProcess (procMgr s) (\<lambda>proc reply. reply @ [getProcessInfo now proc]) []),
      None)"

section \<open>Operations on all processes and on groups\<close>

text \<open>
  Modelled from the spec: \<^verbatim>\<open>Manager.AsyncForEachProcess\<close>, "async_for_each(fn,
  completion_channel) \<open>\<rightarrow>\<close> n -- fan out fn across all processes concurrently; ... each
  completion emits the Process onto completion_channel; the returned n lets the caller
  drain exactly that many completions".

  The callbacks of \<^verbatim>\<open>supervisor.go\<close> act on their own process only, so the registry
  after the fan-out does not depend on the interleaving; the order in which the
  completions reach the channel does. That order is chosen by the scheduler, given here
  as a list of numbers: \<open>completion_order\<close> inserts each process at the position its
  number selects, and every permutation of the processes arises from some list.
\<close>

fun completion_order :: "nat list \<Rightarrow> 'a list \<Rightarrow> 'a list" where
  "completion_order sched [] = []"
| "completion_order [] (x # xs) = x # completion_order [] xs"
| "completion_order (k # sched) (x # xs) =
     (let rest = completion_order sched xs; i = k mod Suc (length rest)
      in take i rest @ x # drop i rest)"

definition AsyncForEachProcess ::
  "nat list \<Rightarrow> Manager \<Rightarrow> (Process \<Rightarrow> Process) \<Rightarrow> Manager \<times> Process list \<times> nat" where
  "AsyncForEachProcess sched pm procFunc =
     (pm\<lparr>procs := map (\<lambda>kv. (fst kv, procFunc (snd kv))) (procs pm)\<rparr>,
      completion_order sched (map (\<lambda>kv. procFunc (snd kv)) (getAllProcess pm)),
      length (getAllProcess pm))"

text \<open>
  The loop \<^verbatim>\<open>for i := 0; i < n; i++ { proc, ok := <-finishedProcCh; ... }\<close>. The channel
  is never closed, so \<open>ok\<close> is true at every receive, and a receive from a channel on
  which nothing more is sent blocks for ever: the result \<open>None\<close>.
\<close>

fun drain :: "nat \<Rightarrow> Process list \<Rightarrow> (Process \<Rightarrow> 'a \<Rightarrow> 'a) \<Rightarrow> 'a \<Rightarrow> 'a option" where
  "drain 0 finishedProcCh body reply = Some reply"
| "drain (Suc n) [] body reply = None"
| "drain (Suc n) (proc # finishedProcCh) body reply = drain n finishedProcCh body (body proc reply)"

text \<open>
  The result entry appended by \<^verbatim>\<open>StartAllProcesses\<close> and \<^verbatim>\<open>StopAllProcesses\<close>. The
  constant \<^verbatim>\<open>faults.Success\<close> is declared outside the visible source and is the
  parameter \<open>Success\<close>.
\<close>

definition task_result :: "int \<Rightarrow> int \<Rightarrow> Process \<Rightarrow> RPCTaskResult" where
  "task_result Success now proc =
     (let processInfo = getProcessInfo now proc in
      \<lparr>task_Name = info_Name processInfo, task_Group = info_Group processInfo,
       Status = Success, Description = ''OK''\<rparr>)"

definition StartAllProcesses ::
  "int \<Rightarrow> (bool \<Rightarrow> Process \<Rightarrow> Process) \<Rightarrow> int \<Rightarrow> nat list \<Rightarrow> Supervisor \<Rightarrow> bool
     \<Rightarrow> (Supervisor \<times> RPCTaskResult list \<times> error option) option" where
  "StartAllProcesses Success Start now sched s wait =
     (case AsyncForEachProcess sched (procMgr s) (Start wait) of
        (pm, finishedProcCh, n) \<Rightarrow>
          map_option (\<lambda>reply. (s\<lparr>procMgr := pm\<rparr>, reply, None))
            (drain n finishedProcCh
               (\<lambda>proc reply. reply @ [task_result Success now proc]) []))"

definition StopAllProcesses ::
  "int \<Rightarrow> (bool \<Rightarrow> Process \<Rightarrow> Process) \<Rightarrow> int \<Rightarrow> nat list \<Rightarrow> Supervisor \<Rightarrow> bool
     \<Rightarrow> (Supervisor \<times> RPCTaskResult list \<times> error option) option" where
  "StopAllProcesses Success Stop now sched s wait =
     (case AsyncForEachProcess sched (procMgr s) (Stop wait) of
        (pm, finishedProcCh, n) \<Rightarrow>
          map_option (\<lambda>reply. (s\<lparr>procMgr := pm\<rparr>, reply, None))
            (drain n finishedProcCh
               (\<lambda>proc reply. reply @ [task_result Success now proc]) []))"

definition StartProcessGroup ::
  "(bool \<Rightarrow> Process \<Rightarrow> Process) \<Rightarrow> int \<Rightarrow> nat list \<Rightarrow> Supervisor \<Rightarrow> StartProcessArgs
     \<Rightarrow> (Supervisor \<times> ProcessInfo list \<times> error option) option" where
  "StartProcessGroup Start now sched s args =
     (case AsyncForEachProcess sched (procMgr s)
             (\<lambda>proc. if GetGroup proc = Name args then Start (Wait args) proc else proc) of
        (pm, finishedProcCh, n) \<Rightarrow>
          map_option (\<lambda>reply. (s\<lparr>procMgr := pm\<rparr>, reply, None))
            (drain n finishedProcCh
               (\<lambda>proc reply. if GetGroup proc = Name args
                              then reply @ [getProcessInfo now proc] else reply) []))"

definition StopProcessGroup ::
  "(bool \<Rightarrow> Process \<Rightarrow> Process) \<Rightarrow> int \<Rightarrow> nat list \<Rightarrow> Supervisor \<Rightarrow> StartProcessArgs
     \<Rightarrow> (Supervisor \<times> ProcessInfo list \<times> error option) option" where
  "StopProcessGroup Stop now sched s args =
     (case AsyncForEachProcess sched (procMgr s)
             (\<lambda>proc. if GetGroup proc = Name args then Stop (Wait args) proc else proc) of
        (pm, finishedProcCh, n) \<Rightarrow>
          map_option (\<lambda>reply. (s\<lparr>procMgr := pm\<rparr>, reply, None))
            (drain n finishedProcCh
               (\<lambda>proc reply. if GetGroup proc = Name args
                              then reply @ [getProcessInfo now proc] else reply) []))"

section \<open>Reloading the configuration\<close>

text \<open>
  \<^verbatim>\<open>os.Exit\<close> ends the supervisor inside a call: a method that can reach it returns
  an outcome, either the values it returns or the exit status.
\<close>

datatype 'a outcome = Return 'a | Exit int

text \<open>Modelled from the spec: \<^verbatim>\<open>util.Sub\<close>, the names of "previous \ new", in order.\<close>

definition util_Sub :: "string list \<Rightarrow> string list \<Rightarrow> string list" where
  "util_Sub arr1 arr2 = filter (\<lambda>s. s \<notin> set arr2) arr1"

text \<open>Modelled from the spec: \<^verbatim>\<open>Config.GetProgramNames\<close>, the names of the program entries.\<close>

definition GetProgramNames :: "Config \<Rightarrow> string list" where
  "GetProgramNames c = map entry_name (GetPrograms c)"

definition GetSupervisorID :: "Supervisor \<Rightarrow> string" where
  "GetSupervisorID s =
     (case GetSupervisord (config s) of
        None \<Rightarrow> ''supervisor''
      | Some entry \<Rightarrow> (case map_of entry ''identifier'' of Some v \<Rightarrow> v | None \<Rightarrow> ''supervisor''))"

text \<open>
  Modelled from the spec: the process built for a configuration entry; its descriptor
  comes from the entry and it has no child yet (state STOPPED, pid 0).
\<close>

definition NewProcess :: "string \<Rightarrow> Entry \<Rightarrow> Process" where
  "NewProcess supervisorID entry =
     \<lparr>GetName = entry_name entry, GetGroup = entry_group entry, GetDescription = [],
      GetStartTime = 0, GetStopTime = 0, state = Stopped, GetExitstatus = 0,
      GetStdoutLogfile = [], GetStderrLogfile = [], GetPid = 0,
      priority = entry_priority entry, autostart = entry_autostart entry,
      command = entry_command entry, stdin_written = [], signals_received = []\<rparr>"

text \<open>
  Modelled from the spec: \<^verbatim>\<open>Manager.CreateProcess\<close>, "create_process(program) \<open>\<rightarrow>\<close> Process
  -- idempotent by name; returns existing if already present". The process is returned
  as the name it is registered under.
\<close>

definition CreateProcess :: "Manager \<Rightarrow> string \<Rightarrow> Entry \<Rightarrow> Manager \<times> string" where
  "CreateProcess pm supervisorID entry =
     (case Find pm (entry_name entry) of
        Some p \<Rightarrow> (pm, entry_name entry)
      | None \<Rightarrow> (pm\<lparr>procs := procs pm @ [(entry_name entry, NewProcess supervisorID entry)]\<rparr>,
                 entry_name entry))"

text \<open>
  Modelled from the spec: \<^verbatim>\<open>Manager.StartAutoStartPrograms\<close>, "concurrently invoke
  start(wait=true) for every process with autostart=true".
\<close>

definition StartAutoStartPrograms :: "(bool \<Rightarrow> Process \<Rightarrow> Process) \<Rightarrow> Manager \<Rightarrow> Manager" where
  "StartAutoStartPrograms Start pm =
     pm\<lparr>procs := map (\<lambda>kv. if autostart (snd kv) then (fst kv, Start True (snd kv)) else kv)
                   (procs pm)\<rparr>"

definition startEventListeners :: "(bool \<Rightarrow> Process \<Rightarrow> Process) \<Rightarrow> Supervisor \<Rightarrow> Supervisor" where
  "startEventListeners Start s =
     fold (\<lambda>entry s'.
             (case CreateProcess (procMgr s') (GetSupervisorID s') entry of
                (pm, proc) \<Rightarrow> s'\<lparr>procMgr := update_proc (Start False) proc pm\<rparr>))
       (GetEventListeners (config s)) s"

definition createPrograms :: "Supervisor \<Rightarrow> string list \<Rightarrow> Supervisor" where
  "createPrograms s prevPrograms =
     (let programs = GetProgramNames (config s);
          s1 = fold (\<lambda>entry s'.
                       s'\<lparr>procMgr := fst (CreateProcess (procMgr s') (GetSupervisorID s') entry)\<rparr>)
                 (GetPrograms (config s)) s;
          removedPrograms = util_Sub prevPrograms programs
      in fold (\<lambda>p s'. s'\<lparr>procMgr := fst (Remove (procMgr s') p)\<rparr>) removedPrograms s1)"

definition startAutoStartPrograms :: "(bool \<Rightarrow> Process \<Rightarrow> Process) \<Rightarrow> Supervisor \<Rightarrow> Supervisor" where
  "startAutoStartPrograms Start s = s\<lparr>procMgr := StartAutoStartPrograms Start (procMgr s)\<rparr>"

text \<open>
  The first half of \<^verbatim>\<open>Reload\<close>, up to the loop over the removed programs. \<open>Load\<close>
  stands for \<^verbatim>\<open>Config.Load\<close>, which reads the configuration file: it yields the
  configuration afterwards, the names of the loaded programs and an error.
  \<^verbatim>\<open>setSupervisordInfo\<close> and \<^verbatim>\<open>startHTTPServer\<close>, which the block under
  \<^verbatim>\<open>err == nil\<close> also calls, act on the logger, the pid file and the XML-RPC server
  only, none of which is part of the supervisor record.
\<close>

definition Reload_loaded ::
  "(Config \<Rightarrow> Config \<times> string list \<times> error option) \<Rightarrow> (bool \<Rightarrow> Process \<Rightarrow> Process)
     \<Rightarrow> Supervisor \<Rightarrow> Supervisor" where
  "Reload_loaded Load Start s =
     (let prevPrograms = GetProgramNames (config s) in
      case Load (config s) of
        (cfg, loadedPrograms, err) \<Rightarrow>
          if err = None
          then startAutoStartPrograms Start
                 (createPrograms (startEventListeners Start (s\<lparr>config := cfg\<rparr>)) prevPrograms)
          else s\<lparr>config := cfg\<rparr>)"

text \<open>
  The loop over \<open>removedPrograms\<close>. A removed process is no longer in the registry, so
  the processes on which \<^verbatim>\<open>proc.Stop(false)\<close> has been called are collected, as they
  are after the call, in the second component.
\<close>

fun removePrograms ::
  "(Config \<Rightarrow> string \<Rightarrow> Config) \<Rightarrow> (bool \<Rightarrow> Process \<Rightarrow> Process) \<Rightarrow> string list
     \<Rightarrow> Supervisor \<times> Process list \<Rightarrow> Supervisor \<times> Process list" where
  "removePrograms RemoveProgram Stop [] (s, stopped) = (s, stopped)"
| "removePrograms RemoveProgram Stop (removedProg # rest) (s, stopped) =
     (case Remove (procMgr s) removedProg of
        (pm, proc) \<Rightarrow>
          removePrograms RemoveProgram Stop rest
            (s\<lparr>config := RemoveProgram (config s) removedProg, procMgr := pm\<rparr>,
             case proc of None \<Rightarrow> stopped | Some p \<Rightarrow> stopped @ [Stop False p]))"

text \<open>
  \<^verbatim>\<open>Reload\<close>. Besides \<open>Load\<close>, the parameters are \<^verbatim>\<open>Supervisor.checkRequiredResources\<close>,
  \<^verbatim>\<open>Config.RemoveProgram\<close> and \<^verbatim>\<open>ProcessGroup.Sub\<close>, all defined outside the visible
  source, and the process operations. The result is the supervisor afterwards, the
  removed processes that were stopped, the three lists of group names and the error of
  \<open>Load\<close>.
\<close>

definition Reload ::
  "(Config \<Rightarrow> Config \<times> string list \<times> error option) \<Rightarrow> (Supervisor \<Rightarrow> error option)
     \<Rightarrow> (Config \<Rightarrow> string \<Rightarrow> Config)
     \<Rightarrow> ((string \<times> string) list \<Rightarrow> (string \<times> string) list
           \<Rightarrow> string list \<times> string list \<times> string list)
     \<Rightarrow> (bool \<Rightarrow> Process \<Rightarrow> Process) \<Rightarrow> (bool \<Rightarrow> Process \<Rightarrow> Process) \<Rightarrow> Supervisor
     \<Rightarrow> (Supervisor \<times> Process list \<times> (string list \<times> string list \<times> string list)
          \<times> error option) outcome" where
  "Reload Load checkRequiredResources RemoveProgram Sub Start Stop s =
     (let prevPrograms = GetProgramNames (config s);
          prevProgGroup = ProgramGroup (config s)
      in case Load (config s) of
        (cfg, loadedPrograms, err) \<Rightarrow>
          (case checkRequiredResources (s\<lparr>config := cfg\<rparr>) of
             Some checkErr \<Rightarrow> Exit 1
           | None \<Rightarrow>
               (case removePrograms RemoveProgram Stop (util_Sub prevPrograms loadedPrograms)
                       (Reload_loaded Load Start s, []) of
                  (s', stopped) \<Rightarrow>
                    Return (s', stopped, Sub (ProgramGroup (config s')) prevProgGroup, err))))"

record ReloadConfigResult =
  AddedGroup :: "string list"
  ChangedGroup :: "string list"
  RemovedGroup :: "string list"

definition ReloadConfig ::
  "(Config \<Rightarrow> Config \<times> string list \<times> error option) \<Rightarrow> (Supervisor \<Rightarrow> error option)
     \<Rightarrow> (Config \<Rightarrow> string \<Rightarrow> Config)
     \<Rightarrow> ((string \<times> string) list \<Rightarrow> (string \<times> string) list
           \<Rightarrow> string list \<times> string list \<times> string list)
     \<Rightarrow> (bool \<Rightarrow> Process \<Rightarrow> Process) \<Rightarrow> (bool \<Rightarrow> Process \<Rightarrow> Process) \<Rightarrow> Supervisor
     \<Rightarrow> (Supervisor \<times> Process list \<times> ReloadConfigResult \<times> error option) outcome" where
  "ReloadConfig Load checkRequiredResources RemoveProgram Sub Start Stop s =
     (case Reload Load checkRequiredResources RemoveProgram Sub Start Stop s of
        Exit code \<Rightarrow> Exit code
      | Return (s', stopped, (addedGroup, changedGroup, removedGroup), err) \<Rightarrow>
          Return (s', stopped,
                  \<lparr>AddedGroup = addedGroup, ChangedGroup = changedGroup,
                   RemovedGroup = removedGroup\<rparr>, err))"

section \<open>The signal handler of the supervisor\<close>

text \<open>
  Modelled from the spec: \<^verbatim>\<open>Manager.StopAllProcesses\<close>, "stop_all_processes() --
  concurrent stop over all processes; returns after all reach a terminal non-running
  state": \<^verbatim>\<open>Stop(true)\<close> on every registered process.
\<close>

definition Manager_StopAllProcesses :: "(bool \<Rightarrow> Process \<Rightarrow> Process) \<Rightarrow> Manager \<Rightarrow> Manager" where
  "Manager_StopAllProcesses Stop pm =
     pm\<lparr>procs := map (\<lambda>kv. (fst kv, Stop True (snd kv))) (procs pm)\<rparr>"

text \<open>
  \<^verbatim>\<open>WaitForExit\<close> polls the restarting flag every ten seconds. On a supervisor whose
  flag is set it stops all processes and returns; on one whose flag is not set it does
  not return: the result \<open>None\<close>. The flag is set by the \<^verbatim>\<open>Restart\<close> method, which
  another goroutine runs on the same supervisor.
\<close>

definition WaitForExit :: "(bool \<Rightarrow> Process \<Rightarrow> Process) \<Rightarrow> Supervisor \<Rightarrow> Supervisor option" where
  "WaitForExit Stop s =
     (if IsRestarting s
      then Some (s\<lparr>procMgr := Manager_StopAllProcesses Stop (procMgr s)\<rparr>)
      else None)"

text \<open>
  The goroutine that \<^verbatim>\<open>initSignals\<close> starts runs three statements: it receives from
  its signal channel, calls \<^verbatim>\<open>s.procMgr.StopAllProcesses()\<close> on the supervisor it was
  started for, and calls \<^verbatim>\<open>os.Exit(-1)\<close>. Its position is \<open>Waiting\<close> before the
  receive, \<open>Signalled\<close> after it and \<open>StoppedAll\<close> once the stop has returned.

  The server process holds every supervisor \<^verbatim>\<open>runServer\<close> has created, each with the
  goroutine started for it, oldest first (the last one is the supervisor in use), and
  its exit status once \<^verbatim>\<open>os.Exit\<close> has been called.
\<close>

datatype handler = Waiting | Signalled | StoppedAll

record Server =
  supervisors :: "(Supervisor \<times> handler) list"
  exited :: "int option"

definition SIGINT :: int where
  "SIGINT = 2"

definition SIGTERM :: int where
  "SIGTERM = 15"

text \<open>
  \<^verbatim>\<open>initSignals\<close> subscribes a new channel to SIGINT and SIGTERM and starts the
  goroutine. Nothing in the source ends a subscription (\<^verbatim>\<open>signal.Stop\<close> is never
  called), so the goroutines of earlier supervisors stay subscribed.
\<close>

definition initSignals :: "Supervisor \<Rightarrow> Server \<Rightarrow> Server" where
  "initSignals s srv = srv\<lparr>supervisors := supervisors srv @ [(s, Waiting)]\<rparr>"

text \<open>
  A signal is sent to every subscribed channel: each goroutine that waits at its
  receive gets it.
\<close>

definition signal_arrives :: "int \<Rightarrow> Server \<Rightarrow> Server" where
  "signal_arrives sig srv =
     (if sig = SIGINT \<or> sig = SIGTERM
      then srv\<lparr>supervisors :=
                 map (\<lambda>sh. (fst sh, if snd sh = Waiting then Signalled else snd sh))
                   (supervisors srv)\<rparr>
      else srv)"

text \<open>
  The next statement of the goroutine of the \<open>i\<close>-th supervisor. After \<^verbatim>\<open>os.Exit\<close>
  nothing runs any more.
\<close>

definition handler_step :: "(bool \<Rightarrow> Process \<Rightarrow> Process) \<Rightarrow> nat \<Rightarrow> Server \<Rightarrow> Server" where
  "handler_step Stop i srv =
     (case exited srv of
        Some code \<Rightarrow> srv
      | None \<Rightarrow>
          if i < length (supervisors srv) then
            (case supervisors srv ! i of
               (s, Waiting) \<Rightarrow> srv
             | (s, Signalled) \<Rightarrow>
                 srv\<lparr>supervisors := (supervisors srv)
                        [i := (s\<lparr>procMgr := Manager_StopAllProcesses Stop (procMgr s)\<rparr>,
                               StoppedAll)]\<rparr>
             | (s, StoppedAll) \<Rightarrow> srv\<lparr>exited := Some (- 1)\<rparr>)
          else srv)"

text \<open>
  The goroutines run in the order the scheduler chooses, given as the list of the
  goroutines that take the successive steps.
\<close>

definition run_handlers :: "(bool \<Rightarrow> Process \<Rightarrow> Process) \<Rightarrow> nat list \<Rightarrow> Server \<Rightarrow> Server" where
  "run_handlers Stop sched srv = fold (handler_step Stop) sched srv"

text \<open>A call on the supervisor in use; \<open>None\<close> when the call does not return.\<close>

definition on_current :: "(Supervisor \<Rightarrow> Supervisor option) \<Rightarrow> Server \<Rightarrow> Server option" where
  "on_current f srv =
     (case rev (supervisors srv) of
        [] \<Rightarrow> None
      | (s, h) # older \<Rightarrow> map_option (\<lambda>s'. srv\<lparr>supervisors := rev older @ [(s', h)]\<rparr>) (f s))"

text \<open>
  \<^verbatim>\<open>runServer\<close> loops over rounds: it creates a supervisor, calls \<^verbatim>\<open>initSignals\<close> for
  it, reloads it and calls \<^verbatim>\<open>WaitForExit\<close>; when that returns the next round starts.
  \<open>one_supervisor s\<close> is the server in its first round and \<open>restarted_server Stop s1 s2\<close>
  the server in its second round, after a \<^verbatim>\<open>Restart\<close> request ended the first; \<open>s1\<close>
  and \<open>s2\<close> are the supervisors of the two rounds as \<^verbatim>\<open>Reload\<close> leaves them.
\<close>

definition one_supervisor :: "Supervisor \<Rightarrow> Server" where
  "one_supervisor s = initSignals s \<lparr>supervisors = [], exited = None\<rparr>"

definition restarted_server ::
  "(bool \<Rightarrow> Process \<Rightarrow> Process) \<Rightarrow> Supervisor \<Rightarrow> Supervisor \<Rightarrow> Server option" where
  "restarted_server Stop s1 s2 =
     map_option (initSignals s2)
       (Option.bind (on_current (\<lambda>s. Some (fst (Restart s))) (one_supervisor s1))
          (on_current (WaitForExit Stop)))"

text \<open>The names under which processes are registered with a manager.\<close>

definition registered :: "Manager \<Rightarrow> string set" where
  "registered pm = set (map fst (procs pm))"

section \<open>Example inputs\<close>

definition example_process :: "string \<Rightarrow> string \<Rightarrow> string \<Rightarrow> State \<Rightarrow> Process" where
  "example_process name grp cmd st =
     \<lparr>GetName = name, GetGroup = grp, GetDescription = [], GetStartTime = 0, GetStopTime = 0,
      state = st, GetExitstatus = 0, GetStdoutLogfile = [], GetStderrLogfile = [], GetPid = 0,
      priority = 999, autostart = True, command = cmd, stdin_written = [],
      signals_received = []\<rparr>"

text \<open>
  Three registered processes: \<open>ok\<close> is running, \<open>bad\<close> has an empty command string and
  \<open>idle\<close> is stopped; \<open>ok\<close> and \<open>bad\<close> form the group \<open>g\<close>.
\<close>

definition example_manager :: Manager where
  "example_manager =
     \<lparr>procs = [(''ok'', example_process ''ok'' ''g'' ''/bin/sleep 60'' Running),
               (''bad'', example_process ''bad'' ''g'' [] Stopped),
               (''idle'', example_process ''idle'' ''idle'' ''/bin/sleep 60'' Stopped)]\<rparr>"

definition example_supervisor :: Supervisor where
  "example_supervisor =
     \<lparr>config = \<lparr>GetPrograms = [], GetEventListeners = [], ProgramGroup = [],
                 GetSupervisord = None\<rparr>,
      procMgr = example_manager, restarting = False\<rparr>"

text \<open>
  A reload in the manner of scenario S6 of the specification: the configuration holds
  the programs \<open>a\<close> and \<open>b\<close>, both registered and running, and the file now defines \<open>b\<close>
  and \<open>c\<close>. \<open>Load_example\<close> is the behaviour of \<^verbatim>\<open>Config.Load\<close> on that file: the
  entries already in the configuration stay (\<^verbatim>\<open>Reload\<close> removes them by
  \<^verbatim>\<open>RemoveProgram\<close>), the entry of \<open>c\<close> is added and the program groups are those
  of the file. The required resources are present.
\<close>

definition example_entry :: "string \<Rightarrow> Entry" where
  "example_entry name =
     \<lparr>entry_name = name, entry_group = name, entry_priority = 999, entry_autostart = True,
      entry_command = ''/bin/sleep 60''\<rparr>"

definition reload_supervisor :: Supervisor where
  "reload_supervisor =
     \<lparr>config = \<lparr>GetPrograms = [example_entry ''a'', example_entry ''b''],
                 GetEventListeners = [],
                 ProgramGroup = [(''a'', ''a''), (''b'', ''b'')],
                 GetSupervisord = None\<rparr>,
      procMgr = \<lparr>procs = [(''a'', example_process ''a'' ''a'' ''/bin/sleep 60'' Running),
                          (''b'', example_process ''b'' ''b'' ''/bin/sleep 60'' Running)]\<rparr>,
      restarting = False\<rparr>"

definition Load_example :: "Config \<Rightarrow> Config \<times> string list \<times> error option" where
  "Load_example c =
     (c\<lparr>GetPrograms := GetPrograms c @ [example_entry ''c''],
        ProgramGroup := [(''b'', ''b''), (''c'', ''c'')]\<rparr>,
      [''b'', ''c''], None)"

definition checkRequiredResources_example :: "Supervisor \<Rightarrow> error option" where
  "checkRequiredResources_example s = None"

definition RemoveProgram_example :: "Config \<Rightarrow> string \<Rightarrow> Config" where
  "RemoveProgram_example c programName =
     c\<lparr>GetPrograms := filter (\<lambda>e. entry_name e \<noteq> programName) (GetPrograms c),
       ProgramGroup := filter (\<lambda>kv. fst kv \<noteq> programName) (ProgramGroup c)\<rparr>"

definition Sub_example ::
  "(string \<times> string) list \<Rightarrow> (string \<times> string) list
     \<Rightarrow> string list \<times> string list \<times> string list" where
  "Sub_example this other =
     (let thisGroup = remdups (map snd this); otherGroup = remdups (map snd other) in
      (util_Sub thisGroup otherGroup,
       filter (\<lambda>g. g \<in> set otherGroup \<and>
                    map fst (filter (\<lambda>kv. snd kv = g) this)
                      \<noteq> map fst (filter (\<lambda>kv. snd kv = g) other)) thisGroup,
       util_Sub otherGroup thisGroup))"

text \<open>
  The same reload with a \<^verbatim>\<open>Config.Load\<close> that replaces the program entries of the
  configuration by those of the file, and a resource check that fails.
\<close>

definition Load_replace_example :: "Config \<Rightarrow> Config \<times> string list \<times> error option" where
  "Load_replace_example c =
     (c\<lparr>GetPrograms := [example_entry ''b'', example_entry ''c''],
        ProgramGroup := [(''b'', ''b''), (''c'', ''c'')]\<rparr>,
      [''b'', ''c''], None)"

definition checkRequiredResources_missing :: "Supervisor \<Rightarrow> error option" where
  "checkRequiredResources_missing s = Some ''required resource is missing''"

text \<open>
  A server whose first supervisor was restarted: both rounds have the processes of
  \<open>example_supervisor\<close>. SIGTERM arrives in the second round and the goroutine of the
  first supervisor takes the first two steps.
\<close>

definition restart_example :: "Server option" where
  "restart_example =
     map_option (run_handlers Stop_spec [0, 0] \<circ> signal_arrives SIGTERM)
       (restarted_server Stop_spec example_supervisor example_supervisor)"

lemmas example_defs = example_supervisor_def example_manager_def example_process_def

lemmas reload_example_defs = reload_supervisor_def example_entry_def example_process_def
  Load_example_def checkRequiredResources_example_def RemoveProgram_example_def Sub_example_def
  Load_replace_example_def checkRequiredResources_missing_def

section \<open>Lemmas about the manager\<close>

lemma length_completion_order: "length (completion_order sched xs) = length xs"
  by (induction sched xs rule: completion_order.induct) (simp_all add: Let_def)

lemma mset_completion_order: "mset (completion_order sched xs) = mset xs"
proof (induction sched xs rule: completion_order.induct)
  case (3 k sched x xs)
  define rest where "rest = completion_order sched xs"
  define i where "i = k mod Suc (length rest)"
  have td: "mset (take i rest) + mset (drop i rest) = mset rest"
    by (metis append_take_drop_id mset_append)
  have "mset (take i rest @ x # drop i rest) = add_mset x (mset rest)"
    by (simp add: td)
  then show ?case
    using 3 by (simp add: Let_def rest_def i_def)
qed simp_all

lemma set_completion_order: "set (completion_order sched xs) = set xs"
  using mset_completion_order [of sched xs] by (metis set_mset_mset)

lemma drain_complete: "length ch = n \<Longrightarrow> drain n ch body reply = Some (fold body ch reply)"
  by (induction n ch body reply rule: drain.induct) simp_all

lemma fold_snoc_map: "fold (\<lambda>x reply. reply @ [g x]) xs reply = reply @ map g xs"
  by (induction xs arbitrary: reply) simp_all

lemma fold_skip: "\<forall>x \<in> set xs. body x = (\<lambda>reply. reply) \<Longrightarrow> fold body xs reply = reply"
  by (induction xs arbitrary: reply) simp_all

lemma length_getAllProcess: "length (getAllProcess pm) = length (procs pm)"
  by (simp add: getAllProcess_def)

lemma mset_getAllProcess: "mset (getAllProcess pm) = mset (procs pm)"
  by (simp add: getAllProcess_def)

lemma set_getAllProcess: "set (getAllProcess pm) = set (procs pm)"
  by (simp add: getAllProcess_def)

lemma AsyncForEachProcess_drained:
  "AsyncForEachProcess sched pm procFunc = (pm', finishedProcCh, n) \<Longrightarrow>
   n = length (procs pm) \<and> length finishedProcCh = n \<and>
   mset finishedProcCh = mset (map (\<lambda>kv. procFunc (snd kv)) (procs pm)) \<and>
   pm' = pm\<lparr>procs := map (\<lambda>kv. (fst kv, procFunc (snd kv))) (procs pm)\<rparr>"
  by (auto simp: AsyncForEachProcess_def length_completion_order length_getAllProcess
      mset_completion_order mset_getAllProcess)

lemma all_entries:
  assumes "AsyncForEachProcess sched (procMgr s) procFunc = (pm', finishedProcCh, n)"
  shows "\<exists>reply. drain n finishedProcCh (\<lambda>proc reply. reply @ [task_result Success now proc]) [] = Some reply \<and>
     length reply = length (procs (procMgr s)) \<and>
     mset reply = mset (map (\<lambda>kv. task_result Success now (procFunc (snd kv))) (procs (procMgr s))) \<and>
     (\<forall>r \<in> set reply. Status r = Success \<and> Description r = ''OK'')"
proof -
  from AsyncForEachProcess_drained [OF assms]
  have n: "n = length (procs (procMgr s))" and len: "length finishedProcCh = n"
    and ms: "mset finishedProcCh = mset (map (\<lambda>kv. procFunc (snd kv)) (procs (procMgr s)))"
    by simp_all
  let ?reply = "map (task_result Success now) finishedProcCh"
  have d: "drain n finishedProcCh (\<lambda>proc reply. reply @ [task_result Success now proc]) [] = Some ?reply"
    by (simp add: drain_complete [OF len] fold_snoc_map)
  have "mset ?reply = image_mset (task_result Success now) (mset finishedProcCh)"
    by simp
  also have "\<dots> = mset (map (\<lambda>kv. task_result Success now (procFunc (snd kv))) (procs (procMgr s)))"
    by (simp only: ms) (simp add: multiset.map_comp comp_def)
  finally have m: "mset ?reply = mset (map (\<lambda>kv. task_result Success now (procFunc (snd kv))) (procs (procMgr s)))" .
  have c: "\<forall>r \<in> set ?reply. Status r = Success \<and> Description r = ''OK''"
    by (simp add: task_result_def Let_def)
  show ?thesis using d m c len n by auto
qed

lemma Find_None_iff: "Find pm name = None \<longleftrightarrow> name \<notin> registered pm"
  by (simp add: Find_def registered_def map_of_eq_None_iff)

lemma Find_Remove:
  "Find (fst (Remove pm x)) name = (if name = x then None else Find pm name)"
proof -
  have "map_of (filter (\<lambda>kv. fst kv \<noteq> x) ps) name = (if name = x then None else map_of ps name)"
    for ps :: "(string \<times> Process) list"
    by (induction ps) auto
  then show ?thesis
    by (simp add: Remove_def Find_def)
qed

lemma snd_Remove: "snd (Remove pm x) = Find pm x"
  by (simp add: Remove_def)

lemma removePrograms_Find:
  "removePrograms RemoveProgram Stop names (s, stopped) = (s', stopped') \<Longrightarrow>
   Find (procMgr s') name = (if name \<in> set names then None else Find (procMgr s) name)"
proof (induction names arbitrary: s stopped)
  case Nil
  then show ?case by simp
next
  case (Cons x names)
  obtain pm proc where r: "Remove (procMgr s) x = (pm, proc)"
    by (cases "Remove (procMgr s) x")
  have pm: "Find pm n = (if n = x then None else Find (procMgr s) n)" for n
    using Find_Remove [of "procMgr s" x n] r by simp
  from Cons.prems r
  have "Find (procMgr s') name
          = (if name \<in> set names then None
             else Find (procMgr (s\<lparr>config := RemoveProgram (config s) x, procMgr := pm\<rparr>)) name)"
    by (intro Cons.IH) simp
  then show ?case by (simp add: pm)
qed

lemma registered_update_proc: "registered (update_proc f name pm) = registered pm"
proof -
  have "map fst (procs (update_proc f name pm)) = map fst (procs pm)"
    by (auto simp: update_proc_def)
  then show ?thesis by (simp only: registered_def)
qed

lemma registered_StartAutoStartPrograms: "registered (StartAutoStartPrograms Start pm) = registered pm"
proof -
  have "map fst (procs (StartAutoStartPrograms Start pm)) = map fst (procs pm)"
    by (auto simp: StartAutoStartPrograms_def)
  then show ?thesis by (simp only: registered_def)
qed

lemma fold_config:
  assumes "\<And>x s. config (f x s) = config s"
  shows "config (fold f xs s) = config s"
  by (induction xs arbitrary: s) (simp_all add: assms)

lemma config_startEventListeners: "config (startEventListeners Start s) = config s"
  unfolding startEventListeners_def
  by (rule fold_config) (simp split: prod.splits)

lemma removePrograms_config:
  "removePrograms RemoveProgram Stop names (s, stopped) = (s', stopped') \<Longrightarrow>
   config s' = fold (\<lambda>name c. RemoveProgram c name) names (config s)"
proof (induction names arbitrary: s stopped)
  case Nil
  then show ?case by simp
next
  case (Cons x names)
  obtain pm proc where r: "Remove (procMgr s) x = (pm, proc)"
    by (cases "Remove (procMgr s) x")
  from Cons.prems r
  have "config s' = fold (\<lambda>name c. RemoveProgram c name) names
                      (config (s\<lparr>config := RemoveProgram (config s) x, procMgr := pm\<rparr>))"
    by (intro Cons.IH) simp
  then show ?case by simp
qed

lemma removePrograms_stopped_set:
  "removePrograms RemoveProgram Stop names (s, stopped) = (s', stopped') \<Longrightarrow>
   set stopped' = set stopped \<union>
     {Stop False p | p. \<exists>name \<in> set names. Find (procMgr s) name = Some p}"
proof (induction names arbitrary: s stopped)
  case Nil
  then show ?case by simp
next
  case (Cons x names)
  obtain pm proc where r: "Remove (procMgr s) x = (pm, proc)"
    by (cases "Remove (procMgr s) x")
  have proc: "proc = Find (procMgr s) x"
    using snd_Remove [of "procMgr s" x] r by simp
  have pm: "Find pm name = (if name = x then None else Find (procMgr s) name)" for name
    using Find_Remove [of "procMgr s" x name] r by simp
  let ?s1 = "s\<lparr>config := RemoveProgram (config s) x, procMgr := pm\<rparr>"
  let ?st1 = "case proc of None \<Rightarrow> stopped | Some p \<Rightarrow> stopped @ [Stop False p]"
  from Cons.prems r have run: "removePrograms RemoveProgram Stop names (?s1, ?st1) = (s', stopped')"
    by simp
  have ih: "set stopped' = set ?st1 \<union>
     {Stop False p | p. \<exists>name \<in> set names. Find (procMgr ?s1) name = Some p}"
    by (rule Cons.IH [OF run])
  have first: "set ?st1 = set stopped \<union> {Stop False p | p. Find (procMgr s) x = Some p}"
    by (cases proc) (auto simp: proc)
  have later: "{Stop False p | p. \<exists>name \<in> set names. Find (procMgr ?s1) name = Some p}
     = {Stop False p | p. \<exists>name \<in> set names. name \<noteq> x \<and> Find (procMgr s) name = Some p}"
    by (auto simp: pm split: if_splits)
  show ?case
    unfolding ih first later by (auto, metis)
qed

lemma registered_Remove: "registered (fst (Remove pm x)) = registered pm - {x}"
  by (auto simp: registered_def Remove_def)

lemma registered_CreateProcess_insert:
  "registered (fst (CreateProcess pm i entry)) = insert (entry_name entry) (registered pm)"
proof (cases "Find pm (entry_name entry)")
  case None
  then show ?thesis by (simp add: CreateProcess_def registered_def)
next
  case (Some p)
  then have "entry_name entry \<in> registered pm"
    using Find_None_iff [of pm "entry_name entry"] by simp
  with Some show ?thesis by (auto simp: CreateProcess_def)
qed

lemma fold_registered_insert:
  assumes "\<And>x s. registered (procMgr (f x s)) = insert (g x) (registered (procMgr s))"
  shows "registered (procMgr (fold f xs s)) = g ` set xs \<union> registered (procMgr s)"
  by (induction xs arbitrary: s) (auto simp: assms)

lemma fold_registered_remove:
  assumes "\<And>x s. registered (procMgr (f x s)) = registered (procMgr s) - {x}"
  shows "registered (procMgr (fold f xs s)) = registered (procMgr s) - set xs"
  by (induction xs arbitrary: s) (auto simp: assms)

lemma registered_startEventListeners_eq:
  "registered (procMgr (startEventListeners Start s))
     = entry_name ` set (GetEventListeners (config s)) \<union> registered (procMgr s)"
  unfolding startEventListeners_def
proof (rule fold_registered_insert)
  fix entry s'
  obtain pm proc where c: "CreateProcess (procMgr s') (GetSupervisorID s') entry = (pm, proc)"
    by (cases "CreateProcess (procMgr s') (GetSupervisorID s') entry")
  with registered_CreateProcess_insert [of "procMgr s'" "GetSupervisorID s'" entry]
  show "registered (procMgr (case CreateProcess (procMgr s') (GetSupervisorID s') entry of
                               (pm, proc) \<Rightarrow> s'\<lparr>procMgr := update_proc (Start False) proc pm\<rparr>))
          = insert (entry_name entry) (registered (procMgr s'))"
    by (simp add: registered_update_proc)
qed

lemma registered_createPrograms_eq:
  "registered (procMgr (createPrograms s prevPrograms))
     = (set (GetProgramNames (config s)) \<union> registered (procMgr s))
         - set (util_Sub prevPrograms (GetProgramNames (config s)))"
proof -
  let ?s1 = "fold (\<lambda>entry s'.
                     s'\<lparr>procMgr := fst (CreateProcess (procMgr s') (GetSupervisorID s') entry)\<rparr>)
               (GetPrograms (config s)) s"
  have created: "registered (procMgr ?s1)
                   = entry_name ` set (GetPrograms (config s)) \<union> registered (procMgr s)"
    by (rule fold_registered_insert) (simp add: registered_CreateProcess_insert)
  have "registered (procMgr (fold (\<lambda>p s'. s'\<lparr>procMgr := fst (Remove (procMgr s') p)\<rparr>) names ?s1))
          = registered (procMgr ?s1) - set names" for names
    by (rule fold_registered_remove) (simp add: registered_Remove)
  then show ?thesis
    by (simp add: createPrograms_def Let_def created GetProgramNames_def)
qed

lemma config_createPrograms: "config (createPrograms s prevPrograms) = config s"
  by (simp add: createPrograms_def Let_def fold_config)

lemma config_Reload_loaded: "config (Reload_loaded Load Start s) = fst (Load (config s))"
  by (cases "Load (config s)")
     (simp add: Reload_loaded_def Let_def startAutoStartPrograms_def config_createPrograms
        config_startEventListeners)

lemma registered_Reload_loaded_eq:
  "registered (procMgr (Reload_loaded Load Start s))
     = (if snd (snd (Load (config s))) = None
        then (registered (procMgr s)
                \<union> entry_name ` set (GetEventListeners (fst (Load (config s))))
                \<union> set (GetProgramNames (fst (Load (config s)))))
             - set (util_Sub (GetProgramNames (config s)) (GetProgramNames (fst (Load (config s)))))
        else registered (procMgr s))"
  by (cases "Load (config s)")
     (auto simp: Reload_loaded_def Let_def startAutoStartPrograms_def
        registered_StartAutoStartPrograms registered_createPrograms_eq
        registered_startEventListeners_eq config_startEventListeners)

lemma failed_Reload_loaded:
  "snd (snd (Load (config s))) \<noteq> None \<Longrightarrow>
   procMgr (Reload_loaded Load Start s) = procMgr s"
  by (cases "Load (config s)") (auto simp: Reload_loaded_def Let_def)

lemma Find_update_proc_other:
  "name \<noteq> k \<Longrightarrow> Find (update_proc f k pm) name = Find pm name"
proof -
  have "map_of (map (\<lambda>kv. if fst kv = k then (fst kv, f (snd kv)) else kv) ps) name
          = map_of ps name" if "name \<noteq> k" for ps :: "(string \<times> Process) list"
    using that by (induction ps) auto
  then show "name \<noteq> k \<Longrightarrow> Find (update_proc f k pm) name = Find pm name"
    by (simp add: Find_def update_proc_def)
qed

lemma Find_CreateProcess_kept:
  "Find pm name = Some p \<Longrightarrow> Find (fst (CreateProcess pm i entry)) name = Some p"
  by (auto simp: CreateProcess_def Find_def split: option.splits)

lemma snd_CreateProcess: "snd (CreateProcess pm i entry) = entry_name entry"
  by (simp add: CreateProcess_def split: option.splits)

lemma Find_StartAutoStartPrograms:
  "Find (StartAutoStartPrograms Start pm) name
     = map_option (\<lambda>p. if autostart p then Start True p else p) (Find pm name)"
proof -
  have "map_of (map (\<lambda>kv. if autostart (snd kv) then (fst kv, Start True (snd kv)) else kv) ps) name
          = map_option (\<lambda>p. if autostart p then Start True p else p) (map_of ps name)"
    for ps :: "(string \<times> Process) list"
    by (induction ps) auto
  then show ?thesis
    by (simp add: Find_def StartAutoStartPrograms_def)
qed

lemma fold_Find_kept:
  assumes "\<And>x (s :: Supervisor). x \<in> set xs \<Longrightarrow> Find (procMgr s) name = Some p
             \<Longrightarrow> Find (procMgr (f x s)) name = Some p"
    and "Find (procMgr s) name = Some p"
  shows "Find (procMgr (fold f xs s)) name = Some p"
  using assms by (induction xs arbitrary: s) simp_all

lemma Find_startEventListeners_kept:
  assumes "name \<notin> entry_name ` set (GetEventListeners (config s))"
    and "Find (procMgr s) name = Some p"
  shows "Find (procMgr (startEventListeners Start s)) name = Some p"
  unfolding startEventListeners_def
proof (rule fold_Find_kept [OF _ assms(2)])
  fix entry and s' :: Supervisor
  assume e: "entry \<in> set (GetEventListeners (config s))" and f: "Find (procMgr s') name = Some p"
  from e assms(1) have ne: "name \<noteq> entry_name entry" by auto
  obtain pm proc where c: "CreateProcess (procMgr s') (GetSupervisorID s') entry = (pm, proc)"
    by (cases "CreateProcess (procMgr s') (GetSupervisorID s') entry")
  have proc: "proc = entry_name entry"
    using snd_CreateProcess [of "procMgr s'" "GetSupervisorID s'" entry] c by simp
  have "Find pm name = Some p"
    using Find_CreateProcess_kept [OF f, of "GetSupervisorID s'" entry] c by simp
  then show "Find (procMgr (case CreateProcess (procMgr s') (GetSupervisorID s') entry of
                              (pm, proc) \<Rightarrow> s'\<lparr>procMgr := update_proc (Start False) proc pm\<rparr>))
               name = Some p"
    by (simp add: c proc Find_update_proc_other [OF ne])
qed

lemma Find_createPrograms_kept:
  assumes "name \<notin> set (util_Sub prevPrograms (GetProgramNames (config s)))"
    and "Find (procMgr s) name = Some p"
  shows "Find (procMgr (createPrograms s prevPrograms)) name = Some p"
proof -
  let ?s1 = "fold (\<lambda>entry s'.
                     s'\<lparr>procMgr := fst (CreateProcess (procMgr s') (GetSupervisorID s') entry)\<rparr>)
               (GetPrograms (config s)) s"
  have created: "Find (procMgr ?s1) name = Some p"
    by (rule fold_Find_kept [OF _ assms(2)]) (simp add: Find_CreateProcess_kept)
  have "Find (procMgr (fold (\<lambda>x s'. s'\<lparr>procMgr := fst (Remove (procMgr s') x)\<rparr>)
                         (util_Sub prevPrograms (GetProgramNames (config s))) ?s1)) name = Some p"
  proof (rule fold_Find_kept [OF _ created])
    fix x and s' :: Supervisor
    assume "x \<in> set (util_Sub prevPrograms (GetProgramNames (config s)))"
      and "Find (procMgr s') name = Some p"
    with assms(1) show "Find (procMgr (s'\<lparr>procMgr := fst (Remove (procMgr s') x)\<rparr>)) name = Some p"
      by (auto simp: Find_Remove)
  qed
  then show ?thesis
    by (simp add: createPrograms_def Let_def)
qed

lemma Find_Reload_loaded_kept:
  assumes "snd (snd (Load (config s))) = None"
    and "name \<notin> entry_name ` set (GetEventListeners (fst (Load (config s))))"
    and "name \<notin> set (util_Sub (GetProgramNames (config s)) (GetProgramNames (fst (Load (config s)))))"
    and "Find (procMgr s) name = Some p"
  shows "Find (procMgr (Reload_loaded Load Start s)) name
           = Some (if autostart p then Start True p else p)"
proof -
  obtain cfg loadedPrograms err where l: "Load (config s) = (cfg, loadedPrograms, err)"
    by (cases "Load (config s)")
  let ?s1 = "startEventListeners Start (s\<lparr>config := cfg\<rparr>)"
  have one: "Find (procMgr ?s1) name = Some p"
    using assms(2,4) by (intro Find_startEventListeners_kept) (simp_all add: l)
  have two: "Find (procMgr (createPrograms ?s1 (GetProgramNames (config s)))) name = Some p"
    using assms(3) one
    by (intro Find_createPrograms_kept) (simp_all add: l config_startEventListeners)
  show ?thesis
    using assms(1) two
    by (simp add: Reload_loaded_def Let_def l startAutoStartPrograms_def
        Find_StartAutoStartPrograms)
qed

section \<open>Lemmas about the signal handler\<close>

text \<open>
  With one supervisor the server is in one of four states, whatever steps the
  scheduler grants: the goroutine waits, it has received the signal, it has stopped all
  processes, or it has, after that, called \<^verbatim>\<open>os.Exit\<close>.
\<close>

lemma handler_step_one:
  assumes "srv \<in> {\<lparr>supervisors = [(s, Waiting)], exited = None\<rparr>,
                  \<lparr>supervisors = [(s, Signalled)], exited = None\<rparr>,
                  \<lparr>supervisors = [(s\<lparr>procMgr := Manager_StopAllProcesses Stop (procMgr s)\<rparr>, StoppedAll)],
                   exited = None\<rparr>,
                  \<lparr>supervisors = [(s\<lparr>procMgr := Manager_StopAllProcesses Stop (procMgr s)\<rparr>, StoppedAll)],
                   exited = Some (- 1)\<rparr>}"
  shows "handler_step Stop i srv \<in> {\<lparr>supervisors = [(s, Waiting)], exited = None\<rparr>,
                  \<lparr>supervisors = [(s, Signalled)], exited = None\<rparr>,
                  \<lparr>supervisors = [(s\<lparr>procMgr := Manager_StopAllProcesses Stop (procMgr s)\<rparr>, StoppedAll)],
                   exited = None\<rparr>,
                  \<lparr>supervisors = [(s\<lparr>procMgr := Manager_StopAllProcesses Stop (procMgr s)\<rparr>, StoppedAll)],
                   exited = Some (- 1)\<rparr>}"
  using assms by (auto simp: handler_step_def)

lemma run_handlers_one:
  assumes "srv \<in> {\<lparr>supervisors = [(s, Waiting)], exited = None\<rparr>,
                  \<lparr>supervisors = [(s, Signalled)], exited = None\<rparr>,
                  \<lparr>supervisors = [(s\<lparr>procMgr := Manager_StopAllProcesses Stop (procMgr s)\<rparr>, StoppedAll)],
                   exited = None\<rparr>,
                  \<lparr>supervisors = [(s\<lparr>procMgr := Manager_StopAllProcesses Stop (procMgr s)\<rparr>, StoppedAll)],
                   exited = Some (- 1)\<rparr>}"
  shows "fold (handler_step Stop) sched srv \<in> {\<lparr>supervisors = [(s, Waiting)], exited = None\<rparr>,
                  \<lparr>supervisors = [(s, Signalled)], exited = None\<rparr>,
                  \<lparr>supervisors = [(s\<lparr>procMgr := Manager_StopAllProcesses Stop (procMgr s)\<rparr>, StoppedAll)],
                   exited = None\<rparr>,
                  \<lparr>supervisors = [(s\<lparr>procMgr := Manager_StopAllProcesses Stop (procMgr s)\<rparr>, StoppedAll)],
                   exited = Some (- 1)\<rparr>}"
  using assms
proof (induction sched arbitrary: srv)
  case Nil
  then show ?case by simp
next
  case (Cons i sched)
  from handler_step_one [OF Cons.prems]
  show ?case by (simp only: fold_simps comp_apply) (rule Cons.IH)
qed

lemma one_supervisor_stop_before_exit:
  assumes "exited (run_handlers Stop sched (signal_arrives sig (one_supervisor s))) \<noteq> None"
  shows "run_handlers Stop sched (signal_arrives sig (one_supervisor s))
           = \<lparr>supervisors = [(s\<lparr>procMgr := Manager_StopAllProcesses Stop (procMgr s)\<rparr>, StoppedAll)],
              exited = Some (- 1)\<rparr>"
proof -
  have "signal_arrives sig (one_supervisor s)
          \<in> {\<lparr>supervisors = [(s, Waiting)], exited = None\<rparr>,
             \<lparr>supervisors = [(s, Signalled)], exited = None\<rparr>,
             \<lparr>supervisors = [(s\<lparr>procMgr := Manager_StopAllProcesses Stop (procMgr s)\<rparr>, StoppedAll)],
              exited = None\<rparr>,
             \<lparr>supervisors = [(s\<lparr>procMgr := Manager_StopAllProcesses Stop (procMgr s)\<rparr>, StoppedAll)],
              exited = Some (- 1)\<rparr>}"
    by (simp add: signal_arrives_def one_supervisor_def initSignals_def)
  from run_handlers_one [OF this, of sched] assms
  show ?thesis
    by (auto simp: run_handlers_def)
qed

lemma one_supervisor_exits:
  "sig = SIGINT \<or> sig = SIGTERM \<Longrightarrow>
   exited (run_handlers Stop [0, 0] (signal_arrives sig (one_supervisor s))) = Some (- 1)"
  by (auto simp: run_handlers_def signal_arrives_def one_supervisor_def initSignals_def
      handler_step_def)


lemma Manager_StopAllProcesses_not_running:
  assumes "\<And>p. state (Stop True p) \<notin> {Starting, Running, Stopping}"
  shows "\<forall>kv \<in> set (procs (Manager_StopAllProcesses Stop pm)).
           state (snd kv) \<notin> {Starting, Running, Stopping}"
  using assms by (auto simp: Manager_StopAllProcesses_def)

section \<open>Theorems\<close>

text \<open>
  C1, as amended. \<^verbatim>\<open>StartProcess\<close> reports success, with no error, exactly when at
  least one registered process matches the name, whatever \<^verbatim>\<open>Start\<close> does to the
  matching processes and whatever state they reach; when no process matches it returns
  the error "fail to find process" with the name and changes nothing. No other error is
  produced.
\<close>

theorem StartProcess_success_iff_match:
  "(fst (snd (StartProcess Start s args)) \<longleftrightarrow> FindMatch (procMgr s) (Name args) \<noteq> []) \<and>
   (snd (snd (StartProcess Start s args)) = None \<longleftrightarrow> FindMatch (procMgr s) (Name args) \<noteq> []) \<and>
   (FindMatch (procMgr s) (Name args) = [] \<longrightarrow>
      StartProcess Start s args = (s, False, Some (''fail to find process '' @ Name args)))"
  by (simp add: StartProcess_def Let_def)

theorem StartProcess_success_iff_match_witness:
  "FindMatch (procMgr example_supervisor) (Name \<lparr>Name = ''nosuch'', Wait = True\<rparr>) = [] \<and>
   StartProcess Start_spec example_supervisor \<lparr>Name = ''nosuch'', Wait = True\<rparr>
     = (example_supervisor, False, Some ''fail to find process nosuch'') \<and>
   FindMatch (procMgr example_supervisor) (Name \<lparr>Name = ''ok'', Wait = True\<rparr>) \<noteq> [] \<and>
   fst (snd (StartProcess Start_spec example_supervisor \<lparr>Name = ''ok'', Wait = True\<rparr>))"
proof -
  have none: "FindMatch (procMgr example_supervisor) (Name \<lparr>Name = ''nosuch'', Wait = True\<rparr>) = []"
    by (simp add: FindMatch_def Find_def example_defs)
  have some: "FindMatch (procMgr example_supervisor) (Name \<lparr>Name = ''ok'', Wait = True\<rparr>) \<noteq> []"
    by (simp add: FindMatch_def Find_def example_defs)
  show ?thesis
    using none some
      StartProcess_success_iff_match [of Start_spec example_supervisor "\<lparr>Name = ''nosuch'', Wait = True\<rparr>"]
      StartProcess_success_iff_match [of Start_spec example_supervisor "\<lparr>Name = ''ok'', Wait = True\<rparr>"]
    by simp
qed

text \<open>
  The claim as stated fails: the program \<open>bad\<close> has an empty command string, so its start
  fails immediately into FATAL, and \<^verbatim>\<open>StartProcess\<close> with \<open>wait = true\<close> still answers
  Success = true and no error.
\<close>

theorem StartProcess_fatal_counterexample:
  "fst (snd (StartProcess Start_spec example_supervisor \<lparr>Name = ''bad'', Wait = True\<rparr>)) = True \<and>
   snd (snd (StartProcess Start_spec example_supervisor \<lparr>Name = ''bad'', Wait = True\<rparr>)) = None \<and>
   map_option state (Find (procMgr (fst (StartProcess Start_spec example_supervisor
      \<lparr>Name = ''bad'', Wait = True\<rparr>))) ''bad'') = Some Fatal"
  by (simp add: StartProcess_def FindMatch_def Find_def update_proc_def Start_spec_def
      example_defs)

text \<open>
  C2, as amended. When the name matches at least one registered process and the signal
  name does not resolve, \<^verbatim>\<open>SignalProcess\<close> answers Success = true with no error, and the
  supervisor is returned unchanged: \<^verbatim>\<open>Signal\<close> is called on no process.
\<close>

theorem SignalProcess_bad_signal_succeeds:
  "FindMatch (procMgr s) (signal_Name args) \<noteq> [] \<Longrightarrow> ToSignal (Signal args) = Inl e \<Longrightarrow>
   SignalProcess ToSignal Signal_proc s args = (s, True, None)"
  by (simp add: SignalProcess_def Let_def)

theorem SignalProcess_bad_signal_succeeds_witness:
  "FindMatch (procMgr example_supervisor) (signal_Name \<lparr>signal_Name = ''ok'', Signal = ''BOGUS''\<rparr>) \<noteq> [] \<and>
   ToSignal_spec (Signal \<lparr>signal_Name = ''ok'', Signal = ''BOGUS''\<rparr>) = Inl ''BAD_SIGNAL'' \<and>
   SignalProcess ToSignal_spec Signal_spec example_supervisor \<lparr>signal_Name = ''ok'', Signal = ''BOGUS''\<rparr>
     = (example_supervisor, True, None)"
proof -
  have m: "FindMatch (procMgr example_supervisor) (signal_Name \<lparr>signal_Name = ''ok'', Signal = ''BOGUS''\<rparr>) \<noteq> []"
    by (simp add: FindMatch_def Find_def example_defs)
  have b: "ToSignal_spec (Signal \<lparr>signal_Name = ''ok'', Signal = ''BOGUS''\<rparr>) = Inl ''BAD_SIGNAL''"
    by (simp add: ToSignal_spec_def)
  show ?thesis
    using m b
      SignalProcess_bad_signal_succeeds [where s = example_supervisor
        and args = "\<lparr>signal_Name = ''ok'', Signal = ''BOGUS''\<rparr>" and ToSignal = ToSignal_spec
        and e = "''BAD_SIGNAL''" and Signal_proc = Signal_spec]
    by simp
qed

text \<open>
  The claim as stated fails: \<open>ok\<close> is registered, \<open>BOGUS\<close> is no signal name, and
  \<^verbatim>\<open>SignalProcess\<close> answers Success = true and returns no error.
\<close>

theorem SignalProcess_bad_signal_counterexample:
  "FindMatch (procMgr example_supervisor) ''ok'' = [''ok''] \<and>
   ToSignal_spec ''BOGUS'' = Inl ''BAD_SIGNAL'' \<and>
   fst (snd (SignalProcess ToSignal_spec Signal_spec example_supervisor
               \<lparr>signal_Name = ''ok'', Signal = ''BOGUS''\<rparr>)) = True \<and>
   snd (snd (SignalProcess ToSignal_spec Signal_spec example_supervisor
               \<lparr>signal_Name = ''ok'', Signal = ''BOGUS''\<rparr>)) = None"
  by (simp add: SignalProcess_def FindMatch_def Find_def ToSignal_spec_def example_defs)

text \<open>
  C3, as amended. When the required resources are present, \<^verbatim>\<open>Reload\<close> returns, with the
  error of \<^verbatim>\<open>Load\<close>, and \<^verbatim>\<open>ReloadConfig\<close> replies with the same three lists. The
  removed programs are the names of the previous configuration that are not among the
  loaded programs. Afterwards:
  \<^item> the configuration is the loaded one with \<^verbatim>\<open>RemoveProgram\<close> applied for each removed
    program, and the three lists are what \<^verbatim>\<open>ProgramGroup.Sub\<close> computes from its program
    groups and those of the previous configuration;
  \<^item> the registered names are those registered when the removal loop starts (after a
    successful load: the names registered before, the event listeners and the programs
    of the loaded configuration, without the previous programs it no longer lists)
    without the removed programs, so no removed program is registered;
  \<^item> \<^verbatim>\<open>Stop(false)\<close> has been called on exactly the processes registered under a removed
    name when the removal loop starts. When the loaded configuration still lists the
    previous programs, or loading failed, these are all removed programs registered
    before the reload: after a failed load the process is stopped as it was, after a
    successful one (the name not being an event listener's) as the autostart sweep left
    it.
\<close>

theorem Reload_removed_programs:
  assumes "checkRequiredResources (s\<lparr>config := fst (Load (config s))\<rparr>) = None"
  shows "\<exists>s' stopped.
     Reload Load checkRequiredResources RemoveProgram Sub Start Stop s
       = Return (s', stopped, Sub (ProgramGroup (config s')) (ProgramGroup (config s)),
                 snd (snd (Load (config s)))) \<and>
     ReloadConfig Load checkRequiredResources RemoveProgram Sub Start Stop s
       = Return (s', stopped,
                 \<lparr>AddedGroup = fst (Sub (ProgramGroup (config s')) (ProgramGroup (config s))),
                  ChangedGroup = fst (snd (Sub (ProgramGroup (config s')) (ProgramGroup (config s)))),
                  RemovedGroup = snd (snd (Sub (ProgramGroup (config s')) (ProgramGroup (config s))))\<rparr>,
                 snd (snd (Load (config s)))) \<and>
     config s' = fold (\<lambda>name c. RemoveProgram c name)
                   (util_Sub (GetProgramNames (config s)) (fst (snd (Load (config s)))))
                   (fst (Load (config s))) \<and>
     registered (procMgr s')
       = (if snd (snd (Load (config s))) = None
          then (registered (procMgr s)
                  \<union> entry_name ` set (GetEventListeners (fst (Load (config s))))
                  \<union> set (GetProgramNames (fst (Load (config s)))))
               - set (util_Sub (GetProgramNames (config s)) (GetProgramNames (fst (Load (config s)))))
          else registered (procMgr s))
         - set (util_Sub (GetProgramNames (config s)) (fst (snd (Load (config s))))) \<and>
     (\<forall>name \<in> set (util_Sub (GetProgramNames (config s)) (fst (snd (Load (config s))))).
        Find (procMgr s') name = None) \<and>
     set stopped
       = {Stop False p | p.
            \<exists>name \<in> set (util_Sub (GetProgramNames (config s)) (fst (snd (Load (config s))))).
              Find (procMgr (Reload_loaded Load Start s)) name = Some p} \<and>
     (snd (snd (Load (config s))) \<noteq> None \<or>
      set (GetProgramNames (config s)) \<subseteq> set (GetProgramNames (fst (Load (config s))))
      \<longrightarrow> (\<forall>name \<in> set (util_Sub (GetProgramNames (config s)) (fst (snd (Load (config s))))).
             Find (procMgr s) name \<noteq> None
             \<longrightarrow> (\<exists>p. Find (procMgr (Reload_loaded Load Start s)) name = Some p \<and>
                      Stop False p \<in> set stopped))) \<and>
     (snd (snd (Load (config s))) \<noteq> None
      \<longrightarrow> (\<forall>name \<in> set (util_Sub (GetProgramNames (config s)) (fst (snd (Load (config s))))).
             \<forall>p. Find (procMgr s) name = Some p \<longrightarrow> Stop False p \<in> set stopped)) \<and>
     (snd (snd (Load (config s))) = None
      \<longrightarrow> (\<forall>name \<in> set (util_Sub (GetProgramNames (config s)) (fst (snd (Load (config s))))).
             \<forall>p. Find (procMgr s) name = Some p \<and>
                 name \<in> set (GetProgramNames (fst (Load (config s)))) \<and>
                 name \<notin> entry_name ` set (GetEventListeners (fst (Load (config s))))
                 \<longrightarrow> Stop False (if autostart p then Start True p else p) \<in> set stopped))"
proof -
  obtain cfg loadedPrograms err where l: "Load (config s) = (cfg, loadedPrograms, err)"
    by (cases "Load (config s)")
  let ?removed = "util_Sub (GetProgramNames (config s)) loadedPrograms"
  let ?loaded = "Reload_loaded Load Start s"
  obtain s' stopped where
    r: "removePrograms RemoveProgram Stop ?removed (?loaded, []) = (s', stopped)"
    by (cases "removePrograms RemoveProgram Stop ?removed (?loaded, [])")
  let ?groups = "Sub (ProgramGroup (config s')) (ProgramGroup (config s))"
  have reload: "Reload Load checkRequiredResources RemoveProgram Sub Start Stop s
                  = Return (s', stopped, ?groups, err)"
    using assms by (simp add: Reload_def l r)
  have cfgr: "ReloadConfig Load checkRequiredResources RemoveProgram Sub Start Stop s
       = Return (s', stopped,
                 \<lparr>AddedGroup = fst ?groups, ChangedGroup = fst (snd ?groups),
                  RemovedGroup = snd (snd ?groups)\<rparr>, err)"
    by (simp add: ReloadConfig_def reload split: prod.splits)
  have conf: "config s' = fold (\<lambda>name c. RemoveProgram c name) ?removed cfg"
    using removePrograms_config [OF r] config_Reload_loaded [of Load Start s] by (simp add: l)
  have find: "Find (procMgr s') name = (if name \<in> set ?removed then None
                                        else Find (procMgr ?loaded) name)" for name
    by (rule removePrograms_Find [OF r])
  have reg: "registered (procMgr s') = registered (procMgr ?loaded) - set ?removed"
  proof -
    have "name \<in> registered (procMgr s')
            \<longleftrightarrow> name \<in> registered (procMgr ?loaded) - set ?removed" for name
      using find [of name] Find_None_iff [of "procMgr s'" name]
        Find_None_iff [of "procMgr ?loaded" name]
      by (auto split: if_splits)
    then show ?thesis by blast
  qed
  have gone: "\<forall>name \<in> set ?removed. Find (procMgr s') name = None"
    by (simp add: find)
  have stop: "set stopped
       = {Stop False p | p. \<exists>name \<in> set ?removed. Find (procMgr ?loaded) name = Some p}"
    using removePrograms_stopped_set [OF r] by simp
  have kept: "\<exists>p. Find (procMgr ?loaded) name = Some p \<and> Stop False p \<in> set stopped"
    if h: "err \<noteq> None \<or> set (GetProgramNames (config s)) \<subseteq> set (GetProgramNames cfg)"
      and n: "name \<in> set ?removed" and f: "Find (procMgr s) name \<noteq> None" for name
  proof -
    from f have "name \<in> registered (procMgr s)"
      by (simp add: Find_None_iff)
    moreover from h have "registered (procMgr s) \<subseteq> registered (procMgr ?loaded)"
      by (auto simp: registered_Reload_loaded_eq l util_Sub_def)
    ultimately have "Find (procMgr ?loaded) name \<noteq> None"
      by (auto simp: Find_None_iff)
    then obtain p where "Find (procMgr ?loaded) name = Some p" by blast
    with n stop show ?thesis by blast
  qed
  have failed: "Stop False p \<in> set stopped"
    if "err \<noteq> None" and "name \<in> set ?removed" and "Find (procMgr s) name = Some p" for name p
    using that stop failed_Reload_loaded [of Load s Start] by (auto simp: l)
  have restarted: "Stop False (if autostart p then Start True p else p) \<in> set stopped"
    if e: "err = None" and n: "name \<in> set ?removed" and f: "Find (procMgr s) name = Some p"
      and listed: "name \<in> set (GetProgramNames cfg)"
      and nl: "name \<notin> entry_name ` set (GetEventListeners cfg)" for name p
  proof -
    have "Find (procMgr ?loaded) name = Some (if autostart p then Start True p else p)"
      using e listed nl f by (intro Find_Reload_loaded_kept) (simp_all add: l util_Sub_def)
    with n stop show ?thesis by blast
  qed
  show ?thesis
    apply (rule exI [of _ s'], rule exI [of _ stopped])
    using reload cfgr conf reg gone stop kept failed restarted
    by (simp add: l registered_Reload_loaded_eq)
qed


theorem Reload_removed_programs_witness:
  "checkRequiredResources_example
     (reload_supervisor\<lparr>config := fst (Load_example (config reload_supervisor))\<rparr>) = None \<and>
   util_Sub (GetProgramNames (config reload_supervisor))
     (fst (snd (Load_example (config reload_supervisor)))) = [''a''] \<and>
   snd (snd (Load_example (config reload_supervisor))) = None \<and>
   set (GetProgramNames (config reload_supervisor))
     \<subseteq> set (GetProgramNames (fst (Load_example (config reload_supervisor)))) \<and>
   ''a'' \<in> set (GetProgramNames (fst (Load_example (config reload_supervisor)))) \<and>
   ''a'' \<notin> entry_name ` set (GetEventListeners (fst (Load_example (config reload_supervisor)))) \<and>
   Find (procMgr reload_supervisor) ''a''
     = Some (example_process ''a'' ''a'' ''/bin/sleep 60'' Running) \<and>
   (\<exists>s' stopped.
      Reload Load_example checkRequiredResources_example RemoveProgram_example Sub_example
          Start_spec Stop_spec reload_supervisor
        = Return (s', stopped,
                  Sub_example (ProgramGroup (config s')) (ProgramGroup (config reload_supervisor)),
                  None) \<and>
      ProgramGroup (config s') = [(''b'', ''b''), (''c'', ''c'')] \<and>
      Find (procMgr s') ''a'' = None \<and>
      example_process ''a'' ''a'' ''/bin/sleep 60'' Stopping \<in> set stopped)"
proof -
  have chk: "checkRequiredResources_example
     (reload_supervisor\<lparr>config := fst (Load_example (config reload_supervisor))\<rparr>) = None"
    by (simp add: checkRequiredResources_example_def)
  have removed: "util_Sub (GetProgramNames (config reload_supervisor))
     (fst (snd (Load_example (config reload_supervisor)))) = [''a'']"
    by (simp add: util_Sub_def GetProgramNames_def reload_example_defs)
  have err: "snd (snd (Load_example (config reload_supervisor))) = None"
    by (simp add: Load_example_def)
  have listed: "set (GetProgramNames (config reload_supervisor))
     \<subseteq> set (GetProgramNames (fst (Load_example (config reload_supervisor))))"
    by (simp add: GetProgramNames_def reload_example_defs)
  have a: "''a'' \<in> set (GetProgramNames (fst (Load_example (config reload_supervisor))))"
    by (simp add: GetProgramNames_def reload_example_defs)
  have nl: "''a'' \<notin> entry_name ` set (GetEventListeners (fst (Load_example (config reload_supervisor))))"
    by (simp add: reload_example_defs)
  have before: "Find (procMgr reload_supervisor) ''a''
     = Some (example_process ''a'' ''a'' ''/bin/sleep 60'' Running)"
    by (simp add: Find_def reload_supervisor_def)
  have stopping: "Stop_spec False
      (if autostart (example_process ''a'' ''a'' ''/bin/sleep 60'' Running)
       then Start_spec True (example_process ''a'' ''a'' ''/bin/sleep 60'' Running)
       else example_process ''a'' ''a'' ''/bin/sleep 60'' Running)
     = example_process ''a'' ''a'' ''/bin/sleep 60'' Stopping"
    by (simp add: Stop_spec_def Start_spec_def example_process_def)
  have groups: "ProgramGroup (fold (\<lambda>name c. RemoveProgram_example c name) [''a'']
                  (fst (Load_example (config reload_supervisor))))
                  = [(''b'', ''b''), (''c'', ''c'')]"
    by (simp add: reload_example_defs)
  from Reload_removed_programs [where checkRequiredResources = checkRequiredResources_example
      and s = reload_supervisor and Load = Load_example and RemoveProgram = RemoveProgram_example
      and Sub = Sub_example and Start = Start_spec and Stop = Stop_spec, OF chk]
  obtain s' stopped where
    r: "Reload Load_example checkRequiredResources_example RemoveProgram_example Sub_example
          Start_spec Stop_spec reload_supervisor
        = Return (s', stopped,
                  Sub_example (ProgramGroup (config s')) (ProgramGroup (config reload_supervisor)),
                  None)"
    and conf: "config s' = fold (\<lambda>name c. RemoveProgram_example c name) [''a'']
                             (fst (Load_example (config reload_supervisor)))"
    and gone: "\<forall>name \<in> set [''a'']. Find (procMgr s') name = None"
    and restarted: "\<forall>name \<in> set [''a'']. \<forall>p.
        Find (procMgr reload_supervisor) name = Some p \<and>
        name \<in> set (GetProgramNames (fst (Load_example (config reload_supervisor)))) \<and>
        name \<notin> entry_name ` set (GetEventListeners (fst (Load_example (config reload_supervisor))))
        \<longrightarrow> Stop_spec False (if autostart p then Start_spec True p else p) \<in> set stopped"
    unfolding removed err by blast
  from restarted before a nl stopping
  have st: "example_process ''a'' ''a'' ''/bin/sleep 60'' Stopping \<in> set stopped"
    by force
  from gone have g: "Find (procMgr s') ''a'' = None" by simp
  from conf groups have pg: "ProgramGroup (config s') = [(''b'', ''b''), (''c'', ''c'')]" by simp
  from r pg g st have "\<exists>s' stopped.
      Reload Load_example checkRequiredResources_example RemoveProgram_example Sub_example
          Start_spec Stop_spec reload_supervisor
        = Return (s', stopped,
                  Sub_example (ProgramGroup (config s')) (ProgramGroup (config reload_supervisor)),
                  None) \<and>
      ProgramGroup (config s') = [(''b'', ''b''), (''c'', ''c'')] \<and>
      Find (procMgr s') ''a'' = None \<and>
      example_process ''a'' ''a'' ''/bin/sleep 60'' Stopping \<in> set stopped"
    by blast
  with chk removed err listed a nl before show ?thesis by blast
qed

text \<open>
  The claim as stated fails at two inputs. When \<^verbatim>\<open>Load\<close> replaces the program entries
  of the configuration, the program \<open>a\<close>, registered and running, is removed from the
  registry by \<^verbatim>\<open>createPrograms\<close>; the removal loop of \<^verbatim>\<open>Reload\<close> no longer finds it and
  \<^verbatim>\<open>Stop\<close> is called on no process. When a required resource is missing, \<^verbatim>\<open>Reload\<close>
  exits with status 1 and returns no lists.
\<close>

theorem Reload_not_stopped_counterexample:
  "Find (procMgr reload_supervisor) ''a''
     = Some (example_process ''a'' ''a'' ''/bin/sleep 60'' Running) \<and>
   util_Sub (GetProgramNames (config reload_supervisor))
     (fst (snd (Load_replace_example (config reload_supervisor)))) = [''a''] \<and>
   Reload Load_replace_example checkRequiredResources_example RemoveProgram_example Sub_example
       Start_spec Stop_spec reload_supervisor
     = Return (\<lparr>config = \<lparr>GetPrograms = [example_entry ''b'', example_entry ''c''],
                          GetEventListeners = [],
                          ProgramGroup = [(''b'', ''b''), (''c'', ''c'')],
                          GetSupervisord = None\<rparr>,
                procMgr = \<lparr>procs = [(''b'', example_process ''b'' ''b'' ''/bin/sleep 60'' Running),
                                   (''c'', example_process ''c'' ''c'' ''/bin/sleep 60'' Running)]\<rparr>,
                restarting = False\<rparr>,
               [], ([''c''], [], [''a'']), None) \<and>
   Reload Load_example checkRequiredResources_missing RemoveProgram_example Sub_example
       Start_spec Stop_spec reload_supervisor = Exit 1"
  by (simp add: Reload_def Reload_loaded_def startAutoStartPrograms_def createPrograms_def
      startEventListeners_def StartAutoStartPrograms_def CreateProcess_def NewProcess_def
      GetProgramNames_def GetSupervisorID_def util_Sub_def Find_def Remove_def Start_spec_def
      Stop_spec_def reload_example_defs)

text \<open>
  C4, as amended. \<^verbatim>\<open>StartAllProcesses\<close> and \<^verbatim>\<open>StopAllProcesses\<close> return (the drain loop
  does not block: the count of the fan-out is the number of completions), with no
  error, a list with exactly one entry for each registered process, whatever order the
  completions arrive in. Each entry carries the name and group of its process; its
  status is always \<^verbatim>\<open>faults.Success\<close> and its description always OK, whatever the start
  or stop did to the process.
\<close>

theorem AllProcesses_one_entry_each:
  "(\<exists>reply. StartAllProcesses Success Start now sched s wait
       = Some (s\<lparr>procMgr := (procMgr s)\<lparr>procs := map (\<lambda>kv. (fst kv, Start wait (snd kv)))
                                                  (procs (procMgr s))\<rparr>\<rparr>, reply, None) \<and>
     length reply = length (procs (procMgr s)) \<and>
     mset reply = mset (map (\<lambda>kv. task_result Success now (Start wait (snd kv))) (procs (procMgr s))) \<and>
     (\<forall>r \<in> set reply. Status r = Success \<and> Description r = ''OK'')) \<and>
   (\<exists>reply. StopAllProcesses Success Stop now sched s wait
       = Some (s\<lparr>procMgr := (procMgr s)\<lparr>procs := map (\<lambda>kv. (fst kv, Stop wait (snd kv)))
                                                  (procs (procMgr s))\<rparr>\<rparr>, reply, None) \<and>
     length reply = length (procs (procMgr s)) \<and>
     mset reply = mset (map (\<lambda>kv. task_result Success now (Stop wait (snd kv))) (procs (procMgr s))) \<and>
     (\<forall>r \<in> set reply. Status r = Success \<and> Description r = ''OK'')) \<and>
   snd (snd (AsyncForEachProcess sched (procMgr s) procFunc))
     = length (fst (snd (AsyncForEachProcess sched (procMgr s) procFunc)))"
proof (intro conjI)
  obtain pm ch n where a: "AsyncForEachProcess sched (procMgr s) (Start wait) = (pm, ch, n)"
    by (cases "AsyncForEachProcess sched (procMgr s) (Start wait)")
  from all_entries [OF a, of Success now] AsyncForEachProcess_drained [OF a]
  show "\<exists>reply. StartAllProcesses Success Start now sched s wait
       = Some (s\<lparr>procMgr := (procMgr s)\<lparr>procs := map (\<lambda>kv. (fst kv, Start wait (snd kv)))
                                                  (procs (procMgr s))\<rparr>\<rparr>, reply, None) \<and>
     length reply = length (procs (procMgr s)) \<and>
     mset reply = mset (map (\<lambda>kv. task_result Success now (Start wait (snd kv))) (procs (procMgr s))) \<and>
     (\<forall>r \<in> set reply. Status r = Success \<and> Description r = ''OK'')"
    by (auto simp: StartAllProcesses_def a)
next
  obtain pm ch n where a: "AsyncForEachProcess sched (procMgr s) (Stop wait) = (pm, ch, n)"
    by (cases "AsyncForEachProcess sched (procMgr s) (Stop wait)")
  from all_entries [OF a, of Success now] AsyncForEachProcess_drained [OF a]
  show "\<exists>reply. StopAllProcesses Success Stop now sched s wait
       = Some (s\<lparr>procMgr := (procMgr s)\<lparr>procs := map (\<lambda>kv. (fst kv, Stop wait (snd kv)))
                                                  (procs (procMgr s))\<rparr>\<rparr>, reply, None) \<and>
     length reply = length (procs (procMgr s)) \<and>
     mset reply = mset (map (\<lambda>kv. task_result Success now (Stop wait (snd kv))) (procs (procMgr s))) \<and>
     (\<forall>r \<in> set reply. Status r = Success \<and> Description r = ''OK'')"
    by (auto simp: StopAllProcesses_def a)
next
  obtain pm ch n where a: "AsyncForEachProcess sched (procMgr s) procFunc = (pm, ch, n)"
    by (cases "AsyncForEachProcess sched (procMgr s) procFunc")
  from AsyncForEachProcess_drained [OF a]
  show "snd (snd (AsyncForEachProcess sched (procMgr s) procFunc))
     = length (fst (snd (AsyncForEachProcess sched (procMgr s) procFunc)))"
    by (simp add: a)
qed

theorem AllProcesses_one_entry_each_witness:
  "StartAllProcesses 80 Start_spec 0 [1, 1] example_supervisor True \<noteq> None \<and>
   StopAllProcesses 80 Stop_spec 0 [1, 1] example_supervisor True \<noteq> None \<and>
   length (procs (procMgr example_supervisor)) = 3 \<and>
   snd (snd (AsyncForEachProcess [1, 1] (procMgr example_supervisor) (Start_spec True))) = 3"
proof -
  have l: "length (procs (procMgr example_supervisor)) = 3"
    by (simp add: example_defs)
  have n: "length (fst (snd (AsyncForEachProcess [1, 1] (procMgr example_supervisor) (Start_spec True)))) = 3"
    by (simp add: AsyncForEachProcess_def length_completion_order length_getAllProcess l)
  show ?thesis
    using l n AllProcesses_one_entry_each [of 80 Start_spec 0 "[1, 1]" example_supervisor True
        Stop_spec "Start_spec True"]
    by auto
qed

text \<open>
  The claim as stated fails: after \<^verbatim>\<open>StartAllProcesses\<close> with \<open>wait = true\<close> (the value 80
  standing for \<^verbatim>\<open>faults.Success\<close>) the process \<open>bad\<close> is FATAL and \<open>ok\<close> is RUNNING, and the
  entries of both carry the same status and description.
\<close>

theorem AllProcesses_outcome_counterexample:
  "map_option (fst \<circ> snd) (StartAllProcesses 80 Start_spec 0 [1, 1] example_supervisor True)
     = Some [\<lparr>task_Name = ''ok'', task_Group = ''g'', Status = 80, Description = ''OK''\<rparr>,
             \<lparr>task_Name = ''bad'', task_Group = ''g'', Status = 80, Description = ''OK''\<rparr>,
             \<lparr>task_Name = ''idle'', task_Group = ''idle'', Status = 80, Description = ''OK''\<rparr>] \<and>
   map_option (map (map_prod id state) \<circ> procs \<circ> procMgr \<circ> fst)
       (StartAllProcesses 80 Start_spec 0 [1, 1] example_supervisor True)
     = Some [(''ok'', Running), (''bad'', Fatal), (''idle'', Running)]"
  by (simp add: StartAllProcesses_def AsyncForEachProcess_def getAllProcess_def task_result_def
      getProcessInfo_def Start_spec_def example_defs)

text \<open>
  C5. \<^verbatim>\<open>GetAllProcessInfo\<close> returns, with no error and without changing the supervisor,
  exactly the \<^verbatim>\<open>ProcessInfo\<close> records of the registered processes, one for each, and
  the sequence is sorted by the pair (group, name).
\<close>

theorem GetAllProcessInfo_sorted:
  "sorted (map (\<lambda>i. (info_Group i, info_Name i)) (fst (snd (GetAllProcessInfo now s)))) \<and>
   mset (fst (snd (GetAllProcessInfo now s)))
     = mset (map (\<lambda>kv. getProcessInfo now (snd kv)) (procs (procMgr s))) \<and>
   length (fst (snd (GetAllProcessInfo now s))) = length (procs (procMgr s)) \<and>
   fst (GetAllProcessInfo now s) = s \<and> snd (snd (GetAllProcessInfo now s)) = None"
  by (simp add: GetAllProcessInfo_def SortProcessInfos_def ForEachProcess_def fold_snoc_map
      mset_getAllProcess length_getAllProcess)

theorem GetAllProcessInfo_sorted_witness:
  "map (\<lambda>i. (info_Group i, info_Name i)) (fst (snd (GetAllProcessInfo 0 example_supervisor)))
     = [(''g'', ''bad''), (''g'', ''ok''), (''idle'', ''idle'')] \<and>
   sorted (map (\<lambda>i. (info_Group i, info_Name i)) (fst (snd (GetAllProcessInfo 0 example_supervisor))))"
proof -
  have v: "map (\<lambda>i. (info_Group i, info_Name i)) (fst (snd (GetAllProcessInfo 0 example_supervisor)))
     = [(''g'', ''bad''), (''g'', ''ok''), (''idle'', ''idle'')]"
    by (simp add: GetAllProcessInfo_def SortProcessInfos_def ForEachProcess_def getAllProcess_def
        getProcessInfo_def example_defs)
  show ?thesis
    using v GetAllProcessInfo_sorted [of 0 example_supervisor] by simp
qed

text \<open>
  C6. \<^verbatim>\<open>SendProcessStdin\<close> fails with the error NOT_RUNNING, reports no success and
  returns the supervisor unchanged (nothing is written to any process) when no process
  is registered under the name or the process is not RUNNING; otherwise its success flag
  is true exactly when the write to the child's stdin returns no error, and it returns
  the error of the write.
\<close>

theorem SendProcessStdin_not_running:
  "((Find (procMgr s) (stdin_Name args) = None \<or>
     (\<exists>p. Find (procMgr s) (stdin_Name args) = Some p \<and> state p \<noteq> Running)) \<longrightarrow>
      SendProcessStdin SendProcessStdin_proc s args = (s, False, Some ''NOT_RUNNING'')) \<and>
   (\<forall>p. Find (procMgr s) (stdin_Name args) = Some p \<and> state p = Running \<longrightarrow>
      fst (snd (SendProcessStdin SendProcessStdin_proc s args))
        = (snd (SendProcessStdin_proc (Chars args) p) = None) \<and>
      snd (snd (SendProcessStdin SendProcessStdin_proc s args))
        = snd (SendProcessStdin_proc (Chars args) p))"
  by (auto simp: SendProcessStdin_def Let_def split: option.splits)

theorem SendProcessStdin_not_running_witness:
  "Find (procMgr example_supervisor) (stdin_Name \<lparr>stdin_Name = ''nosuch'', Chars = ''x''\<rparr>) = None \<and>
   SendProcessStdin SendProcessStdin_spec example_supervisor \<lparr>stdin_Name = ''nosuch'', Chars = ''x''\<rparr>
     = (example_supervisor, False, Some ''NOT_RUNNING'') \<and>
   map_option state (Find (procMgr example_supervisor) (stdin_Name \<lparr>stdin_Name = ''idle'', Chars = ''x''\<rparr>))
     = Some Stopped \<and>
   SendProcessStdin SendProcessStdin_spec example_supervisor \<lparr>stdin_Name = ''idle'', Chars = ''x''\<rparr>
     = (example_supervisor, False, Some ''NOT_RUNNING'') \<and>
   map_option state (Find (procMgr example_supervisor) (stdin_Name \<lparr>stdin_Name = ''ok'', Chars = ''x''\<rparr>))
     = Some Running \<and>
   fst (snd (SendProcessStdin SendProcessStdin_spec example_supervisor \<lparr>stdin_Name = ''ok'', Chars = ''x''\<rparr>))"
proof -
  have a: "Find (procMgr example_supervisor) (stdin_Name \<lparr>stdin_Name = ''nosuch'', Chars = ''x''\<rparr>) = None"
    by (simp add: Find_def example_defs)
  have b: "Find (procMgr example_supervisor) (stdin_Name \<lparr>stdin_Name = ''idle'', Chars = ''x''\<rparr>)
             = Some (example_process ''idle'' ''idle'' ''/bin/sleep 60'' Stopped)"
    by (simp add: Find_def example_supervisor_def example_manager_def)
  have c: "Find (procMgr example_supervisor) (stdin_Name \<lparr>stdin_Name = ''ok'', Chars = ''x''\<rparr>)
             = Some (example_process ''ok'' ''g'' ''/bin/sleep 60'' Running)"
    by (simp add: Find_def example_supervisor_def example_manager_def)
  show ?thesis
    using a b c
      SendProcessStdin_not_running [of example_supervisor "\<lparr>stdin_Name = ''nosuch'', Chars = ''x''\<rparr>" SendProcessStdin_spec]
      SendProcessStdin_not_running [of example_supervisor "\<lparr>stdin_Name = ''idle'', Chars = ''x''\<rparr>" SendProcessStdin_spec]
      SendProcessStdin_not_running [of example_supervisor "\<lparr>stdin_Name = ''ok'', Chars = ''x''\<rparr>" SendProcessStdin_spec]
    by (simp add: example_process_def SendProcessStdin_spec_def)
qed

text \<open>
  C7. After a restart the claim fails on the code. In its second round the server has
  two subscribed goroutines. When SIGTERM arrives and the goroutine of the first
  supervisor runs first, it stops the processes of the first supervisor, which
  \<^verbatim>\<open>WaitForExit\<close> had stopped already, and exits with status -1: the goroutine of the
  supervisor in use has received the signal but has not called \<^verbatim>\<open>StopAllProcesses\<close>,
  and the process \<open>ok\<close> of that supervisor is still RUNNING.
\<close>

theorem restart_exit_before_stop:
  "map_option exited restart_example = Some (Some (- 1)) \<and>
   map_option (map snd \<circ> supervisors) restart_example = Some [StoppedAll, Signalled] \<and>
   map_option (map (map_prod id state) \<circ> procs \<circ> procMgr \<circ> fst \<circ> last \<circ> supervisors)
       restart_example
     = Some [(''ok'', Running), (''bad'', Stopped), (''idle'', Stopped)]"
  by (simp add: restart_example_def restarted_server_def one_supervisor_def initSignals_def
      on_current_def Restart_def WaitForExit_def IsRestarting_def Manager_StopAllProcesses_def
      run_handlers_def handler_step_def signal_arrives_def SIGTERM_def Stop_spec_def
      example_defs)

text \<open>
  C8. Whatever the supervisor's condition, \<^verbatim>\<open>GetState\<close> answers statecode 1 and
  statename RUNNING, with no error, and leaves the supervisor as it was; in particular
  the answer is the same once \<^verbatim>\<open>Restart\<close> has set the restarting flag.
\<close>

theorem GetState_constant:
  "GetState s = (s, \<lparr>Statecode = 1, Statename = ''RUNNING''\<rparr>, None) \<and>
   IsRestarting (fst (Restart s)) \<and>
   fst (snd (GetState (fst (Restart s)))) = \<lparr>Statecode = 1, Statename = ''RUNNING''\<rparr>"
  by (simp add: GetState_def Restart_def IsRestarting_def)

text \<open>
  C9. For every group name, \<^verbatim>\<open>AddProcessGroup\<close> and \<^verbatim>\<open>RemoveProcessGroup\<close> answer
  Success = false with no error, and the supervisor (registry, configuration and every
  process) is returned unchanged.
\<close>

theorem ProcessGroup_stubs:
  "AddProcessGroup s name = (s, False, None) \<and> RemoveProcessGroup s name = (s, False, None)"
  by (simp add: AddProcessGroup_def RemoveProcessGroup_def)

text \<open>
  C10. When no registered process has the group \<open>G\<close>, \<^verbatim>\<open>StartProcessGroup\<close> and
  \<^verbatim>\<open>StopProcessGroup\<close> return an empty list and no error, and the supervisor is
  unchanged: no process is started or stopped. The fan-out still runs over every
  registered process: its count is the number of registered processes.
\<close>

theorem ProcessGroup_unknown_group:
  assumes "\<forall>kv \<in> set (procs (procMgr s)). GetGroup (snd kv) \<noteq> Name args"
  shows "StartProcessGroup Start now sched s args = Some (s, [], None) \<and>
         StopProcessGroup Stop now sched s args = Some (s, [], None) \<and>
         snd (snd (AsyncForEachProcess sched (procMgr s) procFunc)) = length (procs (procMgr s))"
proof -
  have unchanged: "map (\<lambda>kv. (fst kv, if GetGroup (snd kv) = Name args then f (snd kv) else snd kv))
                     (procs (procMgr s)) = procs (procMgr s)" for f
    using assms by (simp add: map_idI)
  have chan: "map (\<lambda>kv. if GetGroup (snd kv) = Name args then f (snd kv) else snd kv)
                (getAllProcess (procMgr s)) = map snd (getAllProcess (procMgr s))" for f
    using assms by (simp add: set_getAllProcess)
  have skip: "fold (\<lambda>proc reply. if GetGroup proc = Name args
                                  then reply @ [getProcessInfo now proc] else reply)
                (completion_order sched (map snd (getAllProcess (procMgr s)))) [] = []"
    using assms by (intro fold_skip) (auto simp: set_completion_order set_getAllProcess)
  have len: "length (completion_order sched (map snd (getAllProcess (procMgr s))))
               = length (getAllProcess (procMgr s))"
    by (simp add: length_completion_order)
  have dr: "drain (length (getAllProcess (procMgr s)))
              (completion_order sched (map snd (getAllProcess (procMgr s))))
              (\<lambda>proc reply. if GetGroup proc = Name args
                              then reply @ [getProcessInfo now proc] else reply) [] = Some []"
    by (simp only: drain_complete [OF len] skip)
  have start: "StartProcessGroup Start now sched s args = Some (s, [], None)"
    by (simp add: StartProcessGroup_def AsyncForEachProcess_def unchanged chan dr)
  have stop: "StopProcessGroup Stop now sched s args = Some (s, [], None)"
    by (simp add: StopProcessGroup_def AsyncForEachProcess_def unchanged chan dr)
  have n: "snd (snd (AsyncForEachProcess sched (procMgr s) procFunc)) = length (procs (procMgr s))"
    by (simp add: AsyncForEachProcess_def length_getAllProcess)
  show ?thesis
    using start stop n by simp
qed

theorem ProcessGroup_unknown_group_witness:
  "Name \<lparr>Name = ''nogroup'', Wait = True\<rparr>
     \<notin> set (map (GetGroup \<circ> snd) (procs (procMgr example_supervisor))) \<and>
   StartProcessGroup Start_spec 0 [1, 1] example_supervisor \<lparr>Name = ''nogroup'', Wait = True\<rparr>
     = Some (example_supervisor, [], None) \<and>
   StopProcessGroup Stop_spec 0 [1, 1] example_supervisor \<lparr>Name = ''nogroup'', Wait = True\<rparr>
     = Some (example_supervisor, [], None) \<and>
   snd (snd (AsyncForEachProcess [1, 1] (procMgr example_supervisor) (Start_spec True))) = 3"
proof -
  have h: "\<forall>kv \<in> set (procs (procMgr example_supervisor)).
      GetGroup (snd kv) \<noteq> Name \<lparr>Name = ''nogroup'', Wait = True\<rparr>"
    by (simp add: example_defs)
  have l: "length (procs (procMgr example_supervisor)) = 3"
    by (simp add: example_defs)
  have g: "Name \<lparr>Name = ''nogroup'', Wait = True\<rparr>
     \<notin> set (map (GetGroup \<circ> snd) (procs (procMgr example_supervisor)))"
    by (simp add: example_defs)
  show ?thesis
    using g l ProcessGroup_unknown_group [OF h, of Start_spec 0 "[1, 1]" Stop_spec "Start_spec True"]
    by simp
qed


end
